theory Spec2Isabelle
  imports Main
begin

section \<open>Python strings\<close>

text \<open>
  A string is the list of its characters. Comparing, searching and splitting strings is
  defined below. What \<open>str.lower()\<close> returns, and which characters \<open>str.strip()\<close> takes for
  whitespace, is fixed by Unicode's character tables: the two are parameters of the model,
  so that every statement holds for Python's own.
\<close>

record str_ops =
  str_lower :: "string \<Rightarrow> string"
  str_isspace :: "char \<Rightarrow> bool"

text \<open>\<open>s.strip()\<close>: the whitespace characters at both ends are dropped.\<close>

definition str_strip :: "str_ops \<Rightarrow> string \<Rightarrow> string" where
  "str_strip S s = rev (dropWhile (str_isspace S) (rev (dropWhile (str_isspace S) s)))"

text \<open>\<open>s.split(sep)\<close> for a one-character separator: never the empty list.\<close>

fun str_split :: "char \<Rightarrow> string \<Rightarrow> string list" where
  "str_split sep [] = [[]]"
| "str_split sep (c # cs) =
     (if c = sep then [] # str_split sep cs
      else (case str_split sep cs of [] \<Rightarrow> [[c]] | w # ws \<Rightarrow> (c # w) # ws))"

fun startswith :: "string \<Rightarrow> string \<Rightarrow> bool" where
  "startswith s [] = True"
| "startswith [] (k # ks) = False"
| "startswith (c # cs) (k # ks) = (c = k \<and> startswith cs ks)"

text \<open>\<open>str_in k s\<close> is Python's \<open>k in s\<close> on strings: \<open>k\<close> occurs in \<open>s\<close> as a contiguous
  substring. The empty string occurs in every string.\<close>

fun str_in :: "string \<Rightarrow> string \<Rightarrow> bool" where
  "str_in k [] = (k = [])"
| "str_in k (c # cs) = (startswith (c # cs) k \<or> str_in k cs)"


section \<open>Requests and responses\<close>

text \<open>An instant of the server clock (\<open>timezone.now()\<close>), in ticks.\<close>

type_synonym datetime = nat

text \<open>
  Modelled from the spec: \<open>users.models.User\<close> is not part of the sources. A user has a
  role tag and a one-to-one profile of the matching role; \<open>parent_profile\<close> and
  \<open>teacher_profile\<close> hold the primary key of that profile when it exists.
\<close>

record user =
  user_id :: nat
  role :: string
  parent_profile :: "nat option"
  teacher_profile :: "nat option"

definition is_parent :: "user \<Rightarrow> bool" where
  "is_parent u = (role u = ''parent'')"

definition is_teacher :: "user \<Rightarrow> bool" where
  "is_teacher u = (role u = ''teacher'')"

text \<open>\<open>req_user = None\<close> is the anonymous user; \<open>req_POST\<close> is the form data.\<close>

record request =
  req_method :: string
  req_user :: "user option"
  req_POST :: "string \<rightharpoonup> string"
  req_is_ajax :: bool

definition POST_get :: "request \<Rightarrow> string \<Rightarrow> string \<Rightarrow> string" where
  "POST_get req k d = (case req_POST req k of None \<Rightarrow> d | Some v \<Rightarrow> v)"

datatype jval = JBool bool | JInt nat | JStr string | JIso datetime

text \<open>
  What a view hands back. \<open>Render t c\<close> is the template \<open>t\<close> rendered with context \<open>c\<close>;
  \<open>Redirect r args\<close> is a redirect to the named route; \<open>Http404\<close> is what
  \<open>get_object_or_404\<close> raises; \<open>ServerError\<close> is an exception no handler catches.
  Modelled from the spec: \<open>users.decorators\<close> is not part of the sources;
  \<open>RedirectToLogin\<close> is the redirect of an unauthenticated request and \<open>RedirectAway\<close>
  the redirect of an authenticated user of the wrong role (section 7 (c), (d)).
\<close>

datatype 'c response =
    Render string 'c
  | Redirect string "nat list"
  | JsonResponse "(string \<times> jval) list" nat
  | Http404
  | ServerError string
  | RedirectToLogin
  | RedirectAway

datatype flash = Success string | Error string


section \<open>The database\<close>

text \<open>
  A table is the list of its rows; every row carries its primary key. The models of
  \<open>information/models.py\<close> are translated field by field (file and image references,
  which no view below reads, are left out). Where several models share a field name, the
  name is prefixed by the model: \<open>bot_is_active\<close>, \<open>room_is_active\<close>.
\<close>

record bot_message =
  bot_id :: nat
  category :: string
  bot_keywords :: string
  response_text :: string
  has_buttons :: bool
  button_options :: "string option"
  priority :: nat
  usage_count :: nat
  bot_is_active :: bool
  bot_created_at :: datetime
  bot_updated_at :: datetime

record chat_room =
  room_id :: nat
  room_parent :: nat
  room_teacher :: nat
  subject :: string
  room_is_active :: bool
  is_archived :: bool
  last_message_at :: "datetime option"
  room_created_at :: datetime
  room_updated_at :: datetime

record chat_message =
  msg_id :: nat
  msg_chat_room :: nat
  sender :: nat
  message_type :: string
  content :: string
  msg_is_read :: bool
  msg_read_at :: "datetime option"
  is_edited :: bool
  edited_at :: "datetime option"
  msg_created_at :: datetime

record notification =
  notif_id :: nat
  recipient :: nat
  notification_type :: string
  title :: string
  message :: string
  link_url :: string
  notif_is_read :: bool
  notif_read_at :: "datetime option"
  notif_created_at :: datetime

text \<open>A calendar date, as \<open>datetime.date\<close> holds it.\<close>

record date =
  year :: int
  month :: nat
  day :: nat

text \<open>
  Modelled from the spec: \<open>users/models.py\<close> and \<open>monitoring/models.py\<close> are not part of
  the sources. The rows below have the fields that the views filter and order by: a child
  and its guardian set (the many-to-many \<open>parents\<close>), a class and the teacher who owns it,
  an enrollment per (class, child),
  a final grade per (student, class, quarter), an attendance entry per (child, date) with
  a status among \<open>present\<close>, \<open>absent\<close> and \<open>late\<close>. A teacher is known by the primary key
  of the Teacher row.
\<close>

record child =
  child_id :: nat
  child_name :: string
  parents :: "nat set"

record school_class =
  class_id :: nat
  class_teacher :: nat

record enrollment =
  enr_id :: nat
  enr_class_obj :: nat
  enr_student :: nat

record final_grade =
  grade_id :: nat
  grade_student :: nat
  grade_class_obj :: nat
  quarter :: nat

record attendance =
  att_id :: nat
  att_child :: nat
  att_date :: date
  status :: string
  recorded_by :: nat

record db =
  bot_messages :: "bot_message list"
  chat_rooms :: "chat_room list"
  chat_messages :: "chat_message list"
  notifications :: "notification list"
  teachers :: "nat list"
  children :: "child list"
  school_classes :: "school_class list"
  enrollments :: "enrollment list"
  final_grades :: "final_grade list"
  attendances :: "attendance list"
  chat_room_seq :: nat
  chat_message_seq :: nat

text \<open>
  The primary key of a new row comes from the table's sequence, which only counts up: a
  key is never handed out twice, also when rows were deleted. \<open>chat_room_seq\<close> and
  \<open>chat_message_seq\<close> are the last keys handed out for the two tables into which the views
  below insert.
\<close>

text \<open>\<open>Model.objects.get(...)\<close>: the one row that passes the filter, or one of the two
  exceptions.\<close>

datatype 'a lookup = DoesNotExist | MultipleObjectsReturned | Found 'a

definition objects_get :: "('a \<Rightarrow> bool) \<Rightarrow> 'a list \<Rightarrow> 'a lookup" where
  "objects_get P rows =
     (case filter P rows of
        [] \<Rightarrow> DoesNotExist
      | [r] \<Rightarrow> Found r
      | r # r' # rs \<Rightarrow> MultipleObjectsReturned)"

definition get_object_or_404 :: "('a \<Rightarrow> bool) \<Rightarrow> 'a list \<Rightarrow> 'c response + 'a" where
  "get_object_or_404 P rows =
     (case objects_get P rows of
        DoesNotExist \<Rightarrow> Inl Http404
      | MultipleObjectsReturned \<Rightarrow> Inl (ServerError ''MultipleObjectsReturned'')
      | Found r \<Rightarrow> Inr r)"


section \<open>The chatbot\<close>

definition get_keywords_list :: "str_ops \<Rightarrow> bot_message \<Rightarrow> string list" where
  "get_keywords_list S m =
     map (\<lambda>k. str_lower S (str_strip S k)) (str_split (CHR '','') (bot_keywords m))"

text \<open>\<open>any(keyword in query for keyword in keywords)\<close>\<close>

definition bot_matches :: "str_ops \<Rightarrow> string \<Rightarrow> bot_message \<Rightarrow> bool" where
  "bot_matches S query m = (\<exists>keyword \<in> set (get_keywords_list S m). str_in keyword query)"

text \<open>\<open>order_by('-priority')\<close>: rows of equal priority stay in table order (the database
  leaves their order open).\<close>

definition order_by_priority_desc :: "bot_message list \<Rightarrow> bot_message list" where
  "order_by_priority_desc ms = sort_key (\<lambda>m. - int (priority m)) ms"

text \<open>\<open>bot_msg.save()\<close>: the row of that primary key is overwritten (inserted when
  there is none), and \<open>updated_at\<close> (\<open>auto_now\<close>) is set to the time of the save.\<close>

definition bot_save :: "bot_message \<Rightarrow> datetime \<Rightarrow> bot_message list \<Rightarrow> bot_message list" where
  "bot_save m now tbl =
     (if bot_id m \<in> bot_id ` set tbl
      then map (\<lambda>r. if bot_id r = bot_id m then m\<lparr>bot_updated_at := now\<rparr> else r) tbl
      else tbl @ [m\<lparr>bot_updated_at := now\<rparr>])"

definition fallback_response :: string where
  "fallback_response =
     ''I'm sorry, I don't understand. Please try rephrasing your question or contact support.''"

text \<open>The \<open>for\<close> loop of \<open>chatbot_query\<close>: the value of \<open>response\<close> when it ends, and
  the table.\<close>

fun scan_bot_messages ::
  "str_ops \<Rightarrow> string \<Rightarrow> datetime \<Rightarrow> bot_message list \<Rightarrow> bot_message list
     \<Rightarrow> string option \<times> bot_message list"
where
  "scan_bot_messages S query now [] tbl = (None, tbl)"
| "scan_bot_messages S query now (bot_msg # rest) tbl =
     (if bot_matches S query bot_msg
      then (Some (response_text bot_msg),
            bot_save (bot_msg\<lparr>usage_count := usage_count bot_msg + 1\<rparr>) now tbl)
      else scan_bot_messages S query now rest tbl)"

text \<open>\<open>if not response\<close>: true of \<open>None\<close> and of the empty string.\<close>

definition not_response :: "string option \<Rightarrow> bool" where
  "not_response r = (case r of None \<Rightarrow> True | Some s \<Rightarrow> s = [])"

definition chatbot_query ::
  "str_ops \<Rightarrow> request \<Rightarrow> datetime \<Rightarrow> db \<Rightarrow> unit response \<times> db"
where
  "chatbot_query S req now d =
     (case req_user req of
        None \<Rightarrow> (RedirectToLogin, d)
      | Some u \<Rightarrow>
          if req_method req = ''POST'' then
            let query = str_lower S (str_strip S (POST_get req ''query'' ''''))
            in if query = [] then
                 (JsonResponse [(''error'', JStr ''Query cannot be empty'')] 400, d)
               else
                 let ordered = order_by_priority_desc (filter bot_is_active (bot_messages d));
                     (response, tbl') = scan_bot_messages S query now ordered (bot_messages d);
                     response' = (if not_response response then fallback_response
                                  else the response)
                 in (JsonResponse [(''success'', JBool True), (''response'', JStr response')] 200,
                     d\<lparr>bot_messages := tbl'\<rparr>)
          else (JsonResponse [(''error'', JStr ''Invalid request'')] 400, d))"


section \<open>Chat rooms and messages\<close>

text \<open>\<open>room.save()\<close> and \<open>message.save()\<close>. A chat room has an \<open>auto_now\<close> field, a chat
  message has none.\<close>

definition room_save :: "chat_room \<Rightarrow> datetime \<Rightarrow> chat_room list \<Rightarrow> chat_room list" where
  "room_save r now tbl =
     (if room_id r \<in> room_id ` set tbl
      then map (\<lambda>x. if room_id x = room_id r then r\<lparr>room_updated_at := now\<rparr> else x) tbl
      else tbl @ [r\<lparr>room_updated_at := now\<rparr>])"

definition msg_save :: "chat_message \<Rightarrow> chat_message list \<Rightarrow> chat_message list" where
  "msg_save m tbl =
     (if msg_id m \<in> msg_id ` set tbl
      then map (\<lambda>x. if msg_id x = msg_id m then m else x) tbl
      else tbl @ [m])"

text \<open>\<open>ChatMessage.mark_as_read\<close>: the object after the call, and the table.\<close>

definition mark_as_read ::
  "chat_message \<Rightarrow> datetime \<Rightarrow> chat_message list \<Rightarrow> chat_message \<times> chat_message list"
where
  "mark_as_read self now tbl =
     (if \<not> msg_is_read self then
        let self' = self\<lparr>msg_is_read := True, msg_read_at := Some now\<rparr>
        in (self', msg_save self' tbl)
      else (self, tbl))"

text \<open>
  \<open>start_chat\<close>, behind \<open>login_required\<close> and \<open>parent_required\<close>. \<open>get_or_create\<close> looks the
  (parent, teacher) pair up and inserts a room with the field defaults when there is none.
  The result is the response, the messages flashed to the user, and the database.
\<close>

definition start_chat ::
  "request \<Rightarrow> nat \<Rightarrow> datetime \<Rightarrow> db \<Rightarrow> unit response \<times> flash list \<times> db"
where
  "start_chat req teacher_id now d =
     (case req_user req of
        None \<Rightarrow> (RedirectToLogin, [], d)
      | Some u \<Rightarrow>
          if \<not> is_parent u then (RedirectAway, [], d)
          else
            (case parent_profile u of
               None \<Rightarrow> (ServerError ''RelatedObjectDoesNotExist'', [], d)
             | Some parent \<Rightarrow>
                 (case get_object_or_404 (\<lambda>t. t = teacher_id) (teachers d) of
                    Inl resp \<Rightarrow> (resp, [], d)
                  | Inr teacher \<Rightarrow>
                      (case objects_get
                              (\<lambda>r. room_parent r = parent \<and> room_teacher r = teacher)
                              (chat_rooms d) of
                         Found room \<Rightarrow>
                           (Redirect ''information:chat_room'' [room_id room], [], d)
                       | MultipleObjectsReturned \<Rightarrow>
                           (ServerError ''MultipleObjectsReturned'', [], d)
                       | DoesNotExist \<Rightarrow>
                           let room =
                                 \<lparr>room_id = Suc (chat_room_seq d),
                                  room_parent = parent, room_teacher = teacher,
                                  subject = '''', room_is_active = True, is_archived = False,
                                  last_message_at = None,
                                  room_created_at = now, room_updated_at = now\<rparr>
                           in (Redirect ''information:chat_room'' [room_id room],
                               [Success ''Chat started successfully!''],
                               d\<lparr>chat_rooms := chat_rooms d @ [room],
                                 chat_room_seq := Suc (chat_room_seq d)\<rparr>)))))"

text \<open>
  \<open>send_message\<close>, behind \<open>login_required\<close>. The clock is read three times: \<open>t_created\<close>
  when the message row is created (\<open>auto_now_add\<close>), \<open>t_now\<close> by \<open>timezone.now()\<close>, and
  \<open>t_saved\<close> when the room is saved (\<open>auto_now\<close>).
\<close>

definition send_message ::
  "str_ops \<Rightarrow> request \<Rightarrow> nat \<Rightarrow> datetime \<Rightarrow> datetime \<Rightarrow> datetime \<Rightarrow> db
     \<Rightarrow> unit response \<times> db"
where
  "send_message S req rid t_created t_now t_saved d =
     (case req_user req of
        None \<Rightarrow> (RedirectToLogin, d)
      | Some u \<Rightarrow>
          if req_method req = ''POST'' then
            let content' = str_strip S (POST_get req ''content'' '''')
            in if content' = [] then
                 (JsonResponse [(''error'', JStr ''Message cannot be empty'')] 400, d)
               else
                 (case
                    (if is_parent u then
                       (case parent_profile u of
                          None \<Rightarrow> Inl (ServerError ''RelatedObjectDoesNotExist'')
                        | Some parent \<Rightarrow>
                            get_object_or_404
                              (\<lambda>r. room_id r = rid \<and> room_parent r = parent) (chat_rooms d))
                     else if is_teacher u then
                       (case teacher_profile u of
                          None \<Rightarrow> Inl (ServerError ''RelatedObjectDoesNotExist'')
                        | Some teacher \<Rightarrow>
                            get_object_or_404
                              (\<lambda>r. room_id r = rid \<and> room_teacher r = teacher) (chat_rooms d))
                     else Inl (JsonResponse [(''error'', JStr ''Unauthorized'')] 403))
                  of
                    Inl resp \<Rightarrow> (resp, d)
                  | Inr room \<Rightarrow>
                      let message' =
                            \<lparr>msg_id = Suc (chat_message_seq d),
                             msg_chat_room = room_id room, sender = user_id u,
                             message_type = ''text'', content = content',
                             msg_is_read = False, msg_read_at = None,
                             is_edited = False, edited_at = None,
                             msg_created_at = t_created\<rparr>;
                          d1 = d\<lparr>chat_messages := chat_messages d @ [message'],
                                 chat_message_seq := Suc (chat_message_seq d)\<rparr>;
                          room' = room\<lparr>last_message_at := Some t_now\<rparr>;
                          d2 = d1\<lparr>chat_rooms := room_save room' t_saved (chat_rooms d1)\<rparr>
                      in (JsonResponse
                            [(''success'', JBool True),
                             (''message_id'', JInt (msg_id message')),
                             (''content'', JStr (content message')),
                             (''created_at'', JIso (msg_created_at message'))] 200,
                          d2))
          else (JsonResponse [(''error'', JStr ''Invalid request'')] 400, d))"


section \<open>Notifications\<close>

definition notif_save :: "notification \<Rightarrow> notification list \<Rightarrow> notification list" where
  "notif_save n tbl =
     (if notif_id n \<in> notif_id ` set tbl
      then map (\<lambda>x. if notif_id x = notif_id n then n else x) tbl
      else tbl @ [n])"

text \<open>\<open>Notification.mark_as_read\<close>\<close>

definition notification_mark_as_read ::
  "notification \<Rightarrow> datetime \<Rightarrow> notification list \<Rightarrow> notification \<times> notification list"
where
  "notification_mark_as_read self now tbl =
     (if \<not> notif_is_read self then
        let self' = self\<lparr>notif_is_read := True, notif_read_at := Some now\<rparr>
        in (self', notif_save self' tbl)
      else (self, tbl))"

definition mark_notification_read ::
  "request \<Rightarrow> nat \<Rightarrow> datetime \<Rightarrow> db \<Rightarrow> unit response \<times> db"
where
  "mark_notification_read req notification_id now d =
     (case req_user req of
        None \<Rightarrow> (RedirectToLogin, d)
      | Some u \<Rightarrow>
          (case get_object_or_404
                  (\<lambda>n. notif_id n = notification_id \<and> recipient n = user_id u)
                  (notifications d) of
             Inl resp \<Rightarrow> (resp, d)
           | Inr n \<Rightarrow>
               let (n', tbl') = notification_mark_as_read n now (notifications d);
                   d' = d\<lparr>notifications := tbl'\<rparr>
               in if req_is_ajax req
                  then (JsonResponse [(''success'', JBool True)] 200, d')
                  else (Redirect ''information:notification_list'' [], d')))"

text \<open>\<open>filter(recipient=request.user, is_read=False).update(is_read=True)\<close> writes the
  one column, on the rows that pass the filter.\<close>

definition mark_all_notifications_read ::
  "request \<Rightarrow> db \<Rightarrow> unit response \<times> flash list \<times> db"
where
  "mark_all_notifications_read req d =
     (case req_user req of
        None \<Rightarrow> (RedirectToLogin, [], d)
      | Some u \<Rightarrow>
          (Redirect ''information:notification_list'' [],
           [Success ''All notifications marked as read!''],
           d\<lparr>notifications :=
                map (\<lambda>n. if recipient n = user_id u \<and> \<not> notif_is_read n
                         then n\<lparr>notif_is_read := True\<rparr> else n)
                    (notifications d)\<rparr>))"

section \<open>Dates and Python numbers\<close>

definition is_leap :: "int \<Rightarrow> bool" where
  "is_leap y = (y mod 4 = 0 \<and> (y mod 100 \<noteq> 0 \<or> y mod 400 = 0))"

definition days_in_months :: "int \<Rightarrow> nat list" where
  "days_in_months y = [31, if is_leap y then 29 else 28, 31, 30, 31, 30, 31, 31, 30, 31, 30, 31]"

definition days_before_year :: "int \<Rightarrow> int" where
  "days_before_year y = (y - 1) * 365 + (y - 1) div 4 - (y - 1) div 100 + (y - 1) div 400"

definition days_before_month :: "int \<Rightarrow> nat \<Rightarrow> int" where
  "days_before_month y m = int (sum_list (take (m - 1) (days_in_months y)))"

text \<open>\<open>date.toordinal()\<close>: the day number, 1 for 0001-01-01. Dates are compared, and
  \<open>timedelta\<close>s subtracted, on it.\<close>

definition toordinal :: "date \<Rightarrow> int" where
  "toordinal dt = days_before_year (year dt) + days_before_month (year dt) (month dt) + int (day dt)"

text \<open>
  A Python number is an \<open>int\<close> or a \<open>float\<close>. Floating-point values are of a type \<open>'f\<close>
  that the model leaves open, with the three operations the views use on them: true
  division of two ints, the product of a float and an int, and \<open>round(x, ndigits)\<close>.
\<close>

datatype 'f pynum = PyInt int | PyFloat 'f

record 'f float_ops =
  fdiv :: "int \<Rightarrow> int \<Rightarrow> 'f"
  fmul :: "'f \<Rightarrow> int \<Rightarrow> 'f"
  fround :: "'f \<Rightarrow> int \<Rightarrow> 'f"

text \<open>\<open>a / b\<close> on ints raises \<open>ZeroDivisionError\<close> when \<open>b\<close> is 0.\<close>

definition py_truediv :: "'f float_ops \<Rightarrow> int \<Rightarrow> int \<Rightarrow> string + 'f" where
  "py_truediv F a b = (if b = 0 then Inl ''ZeroDivisionError'' else Inr (fdiv F a b))"

text \<open>\<open>round(v, ndigits)\<close> for \<open>ndigits \<ge> 0\<close>: an int is returned as it is.\<close>

definition py_round :: "'f float_ops \<Rightarrow> 'f pynum \<Rightarrow> int \<Rightarrow> 'f pynum" where
  "py_round F v ndigits = (case v of PyInt i \<Rightarrow> PyInt i | PyFloat x \<Rightarrow> PyFloat (fround F x ndigits))"

text \<open>\<open>(present_days / total_days * 100) if total_days > 0 else 0\<close>, the expression of
  both \<open>parent_dashboard\<close> and \<open>child_detail\<close>.\<close>

definition attendance_rate_expr :: "'f float_ops \<Rightarrow> nat \<Rightarrow> nat \<Rightarrow> string + 'f pynum" where
  "attendance_rate_expr F present_days' total_days' =
     (if total_days' > 0 then
        (case py_truediv F (int present_days') (int total_days') of
           Inl e \<Rightarrow> Inl e
         | Inr x \<Rightarrow> Inr (PyFloat (fmul F x 100)))
      else Inr (PyInt 0))"


section \<open>The parent's views\<close>

text \<open>\<open>order_by('-date')\<close>\<close>

definition order_by_date_desc :: "attendance list \<Rightarrow> attendance list" where
  "order_by_date_desc xs = sort_key (\<lambda>a. - toordinal (att_date a)) xs"

text \<open>
  The contexts keep the keys that are computed from Child and Attendance rows. The keys
  that list final grades, classes, announcements and events are read-only queries on other
  tables and are not part of the contexts here.
\<close>

record 'f attendance_stats =
  stats_total_days :: nat
  stats_present_days :: nat
  stats_attendance_rate :: "'f pynum"

record 'f child_data =
  cd_child :: child
  cd_recent_attendance :: "attendance list"
  cd_attendance_stats :: "'f attendance_stats"

record 'f dashboard_context =
  dash_parent :: nat
  children_data :: "'f child_data list"

text \<open>The \<open>for child in children\<close> loop of \<open>parent_dashboard\<close>; an exception ends it.\<close>

fun children_data_loop ::
  "'f float_ops \<Rightarrow> date \<Rightarrow> db \<Rightarrow> child list \<Rightarrow> string + 'f child_data list"
where
  "children_data_loop F today d [] = Inr []"
| "children_data_loop F today d (c # rest) =
     (let recent_attendance =
            take 10 (order_by_date_desc (filter (\<lambda>a. att_child a = child_id c) (attendances d)));
          current_month_attendance =
            filter (\<lambda>a. att_child a = child_id c \<and> month (att_date a) = month today
                         \<and> year (att_date a) = year today)
                   (attendances d);
          total_days' = length current_month_attendance;
          present_days' = length (filter (\<lambda>a. status a = ''present'') current_month_attendance)
      in case attendance_rate_expr F present_days' total_days' of
           Inl e \<Rightarrow> Inl e
         | Inr rate \<Rightarrow>
             (case children_data_loop F today d rest of
                Inl e \<Rightarrow> Inl e
              | Inr ds \<Rightarrow>
                  Inr (\<lparr>cd_child = c, cd_recent_attendance = recent_attendance,
                        cd_attendance_stats =
                          \<lparr>stats_total_days = total_days', stats_present_days = present_days',
                           stats_attendance_rate = py_round F rate 1\<rparr>\<rparr> # ds)))"

definition parent_dashboard ::
  "'f float_ops \<Rightarrow> request \<Rightarrow> date \<Rightarrow> db \<Rightarrow> 'f dashboard_context response"
where
  "parent_dashboard F req today d =
     (case req_user req of
        None \<Rightarrow> RedirectToLogin
      | Some u \<Rightarrow>
          if \<not> is_parent u then RedirectAway
          else
            (case parent_profile u of
               None \<Rightarrow> ServerError ''RelatedObjectDoesNotExist''
             | Some parent \<Rightarrow>
                 (case children_data_loop F today d
                         (filter (\<lambda>c. parent \<in> parents c) (children d)) of
                    Inl e \<Rightarrow> ServerError e
                  | Inr ds \<Rightarrow>
                      Render ''users/parent_dashboard.html''
                        \<lparr>dash_parent = parent, children_data = ds\<rparr>)))"

record 'f attendance_summary =
  total_days :: nat
  present_days :: nat
  absent_days :: nat
  late_days :: nat
  attendance_rate :: "'f pynum"

record 'f child_detail_context =
  ctx_child :: child
  ctx_attendance :: "attendance list"
  ctx_attendance_summary :: "'f attendance_summary"

definition child_detail ::
  "'f float_ops \<Rightarrow> request \<Rightarrow> nat \<Rightarrow> date \<Rightarrow> db \<Rightarrow> 'f child_detail_context response \<times> flash list"
where
  "child_detail F req cid today d =
     (case req_user req of
        None \<Rightarrow> (RedirectToLogin, [])
      | Some u \<Rightarrow>
          if \<not> is_parent u then (RedirectAway, [])
          else
            (case parent_profile u of
               None \<Rightarrow> (ServerError ''RelatedObjectDoesNotExist'', [])
             | Some parent \<Rightarrow>
                 (case objects_get (\<lambda>c. child_id c = cid \<and> parent \<in> parents c) (children d) of
                    DoesNotExist \<Rightarrow>
                      (Redirect ''users:parent_dashboard'' [],
                       [Error ''Child not found or you do not have access.''])
                  | MultipleObjectsReturned \<Rightarrow> (ServerError ''MultipleObjectsReturned'', [])
                  | Found c \<Rightarrow>
                      let attendance' =
                            take 30 (order_by_date_desc
                              (filter (\<lambda>a. att_child a = child_id c) (attendances d)));
                          thirty_days_ago = toordinal today - 30;
                          recent_attendance =
                            filter (\<lambda>a. att_child a = child_id c
                                         \<and> thirty_days_ago \<le> toordinal (att_date a))
                                   (attendances d);
                          total_days' = length recent_attendance;
                          present_days' = length (filter (\<lambda>a. status a = ''present'') recent_attendance);
                          absent_days' = length (filter (\<lambda>a. status a = ''absent'') recent_attendance);
                          late_days' = length (filter (\<lambda>a. status a = ''late'') recent_attendance)
                      in (case attendance_rate_expr F present_days' total_days' of
                            Inl e \<Rightarrow> (ServerError e, [])
                          | Inr rate \<Rightarrow>
                              (Render ''users/child_detail.html''
                                 \<lparr>ctx_child = c, ctx_attendance = attendance',
                                  ctx_attendance_summary =
                                    \<lparr>total_days = total_days', present_days = present_days',
                                     absent_days = absent_days', late_days = late_days',
                                     attendance_rate = py_round F rate 1\<rparr>\<rparr>,
                               [])))))"


section \<open>The teacher's views of one student\<close>

record student_attendance_context =
  sa_student :: child
  sa_attendance :: "attendance list"
  sa_teacher :: nat

definition student_attendance ::
  "request \<Rightarrow> nat \<Rightarrow> db \<Rightarrow> student_attendance_context response"
where
  "student_attendance req student_id d =
     (case req_user req of
        None \<Rightarrow> RedirectToLogin
      | Some u \<Rightarrow>
          if \<not> is_teacher u then RedirectAway
          else
            (case teacher_profile u of
               None \<Rightarrow> ServerError ''RelatedObjectDoesNotExist''
             | Some teacher \<Rightarrow>
                 (case get_object_or_404 (\<lambda>c. child_id c = student_id) (children d) of
                    Inl resp \<Rightarrow> resp
                  | Inr student \<Rightarrow>
                      Render ''monitoring/student_attendance.html''
                        \<lparr>sa_student = student,
                         sa_attendance =
                           take 30 (order_by_date_desc
                             (filter (\<lambda>a. att_child a = child_id student) (attendances d))),
                         sa_teacher = teacher\<rparr>)))"

record student_grades_context =
  sg_student :: child
  sg_grades :: "final_grade list"
  sg_teacher :: nat

text \<open>\<open>order_by('class_obj', 'quarter')\<close>, as two stable sorts; classes are ordered by their
  primary key (the ordering of the Class model is not in the sources).\<close>

definition order_by_class_quarter :: "final_grade list \<Rightarrow> final_grade list" where
  "order_by_class_quarter gs = sort_key grade_class_obj (sort_key quarter gs)"

definition student_grades ::
  "request \<Rightarrow> nat \<Rightarrow> db \<Rightarrow> student_grades_context response"
where
  "student_grades req student_id d =
     (case req_user req of
        None \<Rightarrow> RedirectToLogin
      | Some u \<Rightarrow>
          if \<not> is_teacher u then RedirectAway
          else
            (case teacher_profile u of
               None \<Rightarrow> ServerError ''RelatedObjectDoesNotExist''
             | Some teacher \<Rightarrow>
                 (case get_object_or_404 (\<lambda>c. child_id c = student_id) (children d) of
                    Inl resp \<Rightarrow> resp
                  | Inr student \<Rightarrow>
                      Render ''monitoring/student_grades.html''
                        \<lparr>sg_student = student,
                         sg_grades =
                           order_by_class_quarter
                             (filter (\<lambda>g. grade_student g = child_id student
                                          \<and> (\<exists>c \<in> set (school_classes d).
                                                class_id c = grade_class_obj g
                                                \<and> class_teacher c = teacher))
                                     (final_grades d)),
                         sg_teacher = teacher\<rparr>)))"

text \<open>
  The access rule of section 4.1 for a teacher and a student, in the spec's words: the
  student is enrolled in a class that the teacher owns.
\<close>

definition teacher_owns_class_of :: "nat \<Rightarrow> nat \<Rightarrow> db \<Rightarrow> bool" where
  "teacher_owns_class_of teacher student_id d =
     (\<exists>c \<in> set (school_classes d). class_teacher c = teacher
        \<and> (\<exists>e \<in> set (enrollments d). enr_class_obj e = class_id c \<and> enr_student e = student_id))"

text \<open>
  Who takes part in a chat room: the parent or the teacher of the room's pair. A user has
  one role, so the two cases exclude each other.
\<close>

definition room_participant :: "user \<Rightarrow> chat_room \<Rightarrow> bool" where
  "room_participant u r =
     ((is_parent u \<and> parent_profile u = Some (room_parent r))
      \<or> (is_teacher u \<and> teacher_profile u = Some (room_teacher r)))"

text \<open>The constraints the database keeps on chat rooms: the primary key (no key twice,
  and every key one that the sequence has handed out), and
  \<open>unique_together = ['parent', 'teacher']\<close>.\<close>

definition rooms_unique :: "db \<Rightarrow> bool" where
  "rooms_unique d =
     (distinct (map room_id (chat_rooms d))
      \<and> (\<forall>r \<in> set (chat_rooms d). room_id r \<le> chat_room_seq d)
      \<and> distinct (map (\<lambda>r. (room_parent r, room_teacher r)) (chat_rooms d)))"

text \<open>
  The attendance rate in the spec's words: \<open>present_days / total_days * 100\<close> rounded to
  one decimal, and 0 when \<open>total_days\<close> is 0.
\<close>

definition rounded_rate :: "'f float_ops \<Rightarrow> nat \<Rightarrow> nat \<Rightarrow> 'f pynum" where
  "rounded_rate F present_days' total_days' =
     (if total_days' = 0 then PyInt 0
      else PyFloat (fround F (fmul F (fdiv F (int present_days') (int total_days')) 100) 1))"

text \<open>The two aggregation windows: the current calendar month, and the trailing 30
  days.\<close>

definition in_current_month :: "date \<Rightarrow> attendance \<Rightarrow> bool" where
  "in_current_month today a = (month (att_date a) = month today \<and> year (att_date a) = year today)"

definition in_last_30_days :: "date \<Rightarrow> attendance \<Rightarrow> bool" where
  "in_last_30_days today a = (toordinal today - 30 \<le> toordinal (att_date a))"


section \<open>Example data\<close>

text \<open>
  The string operations for the examples, on characters below 256 as Python has them:
  \<open>lower\<close> maps \<open>A\<close>..\<open>Z\<close> and the upper-case letters of Latin-1 (\<open>0xC0\<close>..\<open>0xDE\<close> without
  \<open>0xD7\<close>) to their lower-case letters, and \<open>isspace\<close> holds of \<open>0x09\<close>..\<open>0x0D\<close>,
  \<open>0x1C\<close>..\<open>0x20\<close>, \<open>0x85\<close> and \<open>0xA0\<close>.
\<close>

definition latin1_upper :: string where
  "latin1_upper =
     ''ABCDEFGHIJKLMNOPQRSTUVWXYZ'' @
     [CHR 0xC0, CHR 0xC1, CHR 0xC2, CHR 0xC3, CHR 0xC4, CHR 0xC5, CHR 0xC6, CHR 0xC7,
      CHR 0xC8, CHR 0xC9, CHR 0xCA, CHR 0xCB, CHR 0xCC, CHR 0xCD, CHR 0xCE, CHR 0xCF,
      CHR 0xD0, CHR 0xD1, CHR 0xD2, CHR 0xD3, CHR 0xD4, CHR 0xD5, CHR 0xD6,
      CHR 0xD8, CHR 0xD9, CHR 0xDA, CHR 0xDB, CHR 0xDC, CHR 0xDD, CHR 0xDE]"

definition latin1_lower :: string where
  "latin1_lower =
     ''abcdefghijklmnopqrstuvwxyz'' @
     [CHR 0xE0, CHR 0xE1, CHR 0xE2, CHR 0xE3, CHR 0xE4, CHR 0xE5, CHR 0xE6, CHR 0xE7,
      CHR 0xE8, CHR 0xE9, CHR 0xEA, CHR 0xEB, CHR 0xEC, CHR 0xED, CHR 0xEE, CHR 0xEF,
      CHR 0xF0, CHR 0xF1, CHR 0xF2, CHR 0xF3, CHR 0xF4, CHR 0xF5, CHR 0xF6,
      CHR 0xF8, CHR 0xF9, CHR 0xFA, CHR 0xFB, CHR 0xFC, CHR 0xFD, CHR 0xFE]"

definition lower_char :: "char \<Rightarrow> char" where
  "lower_char c = (case map_of (zip latin1_upper latin1_lower) c of Some l \<Rightarrow> l | None \<Rightarrow> c)"

definition latin1_ops :: str_ops where
  "latin1_ops =
     \<lparr>str_lower = map lower_char,
      str_isspace =
        (\<lambda>c. c \<in> set [CHR 0x09, CHR 0x0A, CHR 0x0B, CHR 0x0C, CHR 0x0D,
                        CHR 0x1C, CHR 0x1D, CHR 0x1E, CHR 0x1F, CHR '' '',
                        CHR 0x85, CHR 0xA0])\<rparr>"

definition alice :: user where
  "alice = \<lparr>user_id = 1, role = ''parent'', parent_profile = Some 1, teacher_profile = None\<rparr>"

definition bob :: user where
  "bob = \<lparr>user_id = 2, role = ''teacher'', parent_profile = None, teacher_profile = Some 1\<rparr>"

definition carol :: user where
  "carol = \<lparr>user_id = 3, role = ''admin'', parent_profile = None, teacher_profile = None\<rparr>"

definition post :: "user \<Rightarrow> string \<Rightarrow> string \<Rightarrow> request" where
  "post u k v =
     \<lparr>req_method = ''POST'', req_user = Some u, req_POST = [k \<mapsto> v], req_is_ajax = True\<rparr>"

definition get_request :: "user \<Rightarrow> request" where
  "get_request u =
     \<lparr>req_method = ''GET'', req_user = Some u, req_POST = Map.empty, req_is_ajax = False\<rparr>"

definition grade_msg :: bot_message where
  "grade_msg =
     \<lparr>bot_id = 1, category = ''grades'', bot_keywords = ''grade,grades'',
      response_text = ''Grades are posted every quarter.'', has_buttons = False,
      button_options = None, priority = 5, usage_count = 0, bot_is_active = True,
      bot_created_at = 0, bot_updated_at = 0\<rparr>"

definition hello_msg :: bot_message where
  "hello_msg =
     \<lparr>bot_id = 2, category = ''greeting'', bot_keywords = ''Hello, Howdy'',
      response_text = ''Hello!'', has_buttons = False,
      button_options = None, priority = 10, usage_count = 3, bot_is_active = True,
      bot_created_at = 0, bot_updated_at = 0\<rparr>"

definition cafe_msg :: bot_message where
  "cafe_msg =
     \<lparr>bot_id = 4, category = ''general'',
      bot_keywords = [CHR ''C'', CHR ''A'', CHR ''F'', CHR 0xC9],
      response_text = ''The cafeteria opens at noon.'', has_buttons = False,
      button_options = None, priority = 10, usage_count = 0, bot_is_active = True,
      bot_created_at = 0, bot_updated_at = 0\<rparr>"

definition silent_msg :: bot_message where
  "silent_msg =
     \<lparr>bot_id = 3, category = ''general'', bot_keywords = ''fees'',
      response_text = '''', has_buttons = False,
      button_options = None, priority = 1, usage_count = 0, bot_is_active = True,
      bot_created_at = 0, bot_updated_at = 0\<rparr>"

definition room1 :: chat_room where
  "room1 =
     \<lparr>room_id = 1, room_parent = 1, room_teacher = 1, subject = '''', room_is_active = True,
      is_archived = False, last_message_at = None, room_created_at = 0, room_updated_at = 0\<rparr>"

definition msg1 :: chat_message where
  "msg1 =
     \<lparr>msg_id = 1, msg_chat_room = 1, sender = 2, message_type = ''text'',
      content = ''Good morning'', msg_is_read = False, msg_read_at = None,
      is_edited = False, edited_at = None, msg_created_at = 3\<rparr>"

definition notif1 :: notification where
  "notif1 =
     \<lparr>notif_id = 1, recipient = 1, notification_type = ''grade_posted'',
      title = ''Grade posted'', message = ''A new grade was posted.'', link_url = '''',
      notif_is_read = False, notif_read_at = None, notif_created_at = 2\<rparr>"

definition notif2 :: notification where
  "notif2 =
     \<lparr>notif_id = 2, recipient = 2, notification_type = ''general'',
      title = ''Meeting'', message = ''Staff meeting at noon.'', link_url = '''',
      notif_is_read = False, notif_read_at = None, notif_created_at = 2\<rparr>"

definition dana :: child where
  "dana = \<lparr>child_id = 7, child_name = ''Dana'', parents = {1}\<rparr>"

definition eli :: child where
  "eli = \<lparr>child_id = 8, child_name = ''Eli'', parents = {2}\<rparr>"

definition att1 :: attendance where
  "att1 =
     \<lparr>att_id = 1, att_child = 8, att_date = \<lparr>year = 2024, month = 3, day = 4\<rparr>,
      status = ''absent'', recorded_by = 2\<rparr>"

definition att2 :: attendance where
  "att2 =
     \<lparr>att_id = 2, att_child = 7, att_date = \<lparr>year = 2024, month = 3, day = 4\<rparr>,
      status = ''present'', recorded_by = 1\<rparr>"

definition att3 :: attendance where
  "att3 =
     \<lparr>att_id = 3, att_child = 7, att_date = \<lparr>year = 2024, month = 3, day = 5\<rparr>,
      status = ''late'', recorded_by = 1\<rparr>"

text \<open>A school with one parent (profile 1), two teachers (profiles 1 and 2), and two
  children: Dana, in the class of teacher 1, and Eli, in the class of teacher 2. Of the
  five chat messages written so far, the first is left.\<close>

definition school :: db where
  "school =
     \<lparr>bot_messages = [grade_msg, hello_msg, silent_msg],
      chat_rooms = [room1],
      chat_messages = [msg1],
      notifications = [notif1, notif2],
      teachers = [1, 2],
      children = [dana, eli],
      school_classes = [\<lparr>class_id = 1, class_teacher = 1\<rparr>, \<lparr>class_id = 2, class_teacher = 2\<rparr>],
      enrollments = [\<lparr>enr_id = 1, enr_class_obj = 1, enr_student = 7\<rparr>,
                     \<lparr>enr_id = 2, enr_class_obj = 2, enr_student = 8\<rparr>],
      final_grades = [\<lparr>grade_id = 1, grade_student = 8, grade_class_obj = 2, quarter = 1\<rparr>],
      attendances = [att1, att2, att3],
      chat_room_seq = 1,
      chat_message_seq = 5\<rparr>"

text \<open>The same school with another table of bot messages: one keyword is \<open>CAF\<close> followed
  by the letter \<open>0xC9\<close> (E with acute accent).\<close>

definition cafe_school :: db where
  "cafe_school = school\<lparr>bot_messages := [grade_msg, cafe_msg]\<rparr>"

text \<open>Floating-point operations for the examples: the expression itself, unevaluated.\<close>

datatype fexpr = FDiv int int | FMul fexpr int | FRound fexpr int

definition sym_ops :: "fexpr float_ops" where
  "sym_ops = \<lparr>fdiv = FDiv, fmul = FMul, fround = FRound\<rparr>"


section \<open>Properties of the chatbot\<close>

lemma scan_bot_messages_find:
  "scan_bot_messages S query now ms tbl =
     (case find (bot_matches S query) ms of
        None \<Rightarrow> (None, tbl)
      | Some m \<Rightarrow> (Some (response_text m),
                   bot_save (m\<lparr>usage_count := usage_count m + 1\<rparr>) now tbl))"
  by (induction ms) simp_all

lemma find_first_of_sorted:
  assumes "sorted (map f xs)" and "m \<in> set xs" and "P m"
    and "\<forall>x \<in> set xs. P x \<and> x \<noteq> m \<longrightarrow> f m < f x"
  shows "find P xs = Some m"
  using assms
proof (induction xs)
  case Nil
  then show ?case by simp
next
  case (Cons a xs)
  show ?case
  proof (cases "a = m")
    case True
    with Cons.prems show ?thesis by simp
  next
    case False
    with Cons.prems have m_in: "m \<in> set xs" by simp
    from Cons.prems(1) m_in have "f a \<le> f m" by auto
    with Cons.prems(4) False have "\<not> P a" by fastforce
    moreover have "find P xs = Some m"
      using Cons.IH Cons.prems m_in by simp
    ultimately show ?thesis by simp
  qed
qed

lemma find_ordered_highest:
  assumes "m \<in> set tbl" and "bot_is_active m" and "bot_matches S query m"
    and "\<forall>m' \<in> set tbl. bot_is_active m' \<and> bot_matches S query m' \<and> m' \<noteq> m
           \<longrightarrow> priority m' < priority m"
  shows "find (bot_matches S query) (order_by_priority_desc (filter bot_is_active tbl)) = Some m"
  unfolding order_by_priority_desc_def
proof (rule find_first_of_sorted [where f = "\<lambda>m. - int (priority m)"])
  show "sorted (map (\<lambda>m. - int (priority m)) (sort_key (\<lambda>m. - int (priority m)) (filter bot_is_active tbl)))"
    by (rule sorted_sort_key)
  show "m \<in> set (sort_key (\<lambda>m. - int (priority m)) (filter bot_is_active tbl))"
    using assms(1,2) by simp
  show "bot_matches S query m" by fact
  show "\<forall>x \<in> set (sort_key (\<lambda>m. - int (priority m)) (filter bot_is_active tbl)).
          bot_matches S query x \<and> x \<noteq> m \<longrightarrow> - int (priority m) < - int (priority x)"
    using assms(4) by auto
qed

lemma chatbot_query_post:
  assumes "req_user req = Some u" and "req_method req = ''POST''"
    and "query = str_lower S (str_strip S (POST_get req ''query'' ''''))" and "query \<noteq> []"
  shows "chatbot_query S req now d =
     (case find (bot_matches S query) (order_by_priority_desc (filter bot_is_active (bot_messages d))) of
        None \<Rightarrow> (JsonResponse [(''success'', JBool True), (''response'', JStr fallback_response)] 200, d)
      | Some m \<Rightarrow>
          (JsonResponse [(''success'', JBool True),
             (''response'', JStr (if response_text m = [] then fallback_response else response_text m))] 200,
           d\<lparr>bot_messages := bot_save (m\<lparr>usage_count := usage_count m + 1\<rparr>) now (bot_messages d)\<rparr>))"
  using assms
  by (simp add: chatbot_query_def scan_bot_messages_find not_response_def Let_def split: option.splits)

text \<open>
  What the view answers when a record matches: for a POST whose query is not empty once
  stripped and lowered, if \<open>m\<close> is active, one of its keywords occurs in the query, and
  every other active record with a matching keyword has a lower priority, then the
  response is the \<open>response_text\<close> of \<open>m\<close>, whatever records of lower priority match as
  well, unless that text is empty: then it is the fallback string.
\<close>

lemma chatbot_query_first_match_response:
  assumes "req_user req = Some u" and "req_method req = ''POST''"
    and "query = str_lower S (str_strip S (POST_get req ''query'' ''''))" and "query \<noteq> []"
    and "m \<in> set (bot_messages d)" and "bot_is_active m" and "bot_matches S query m"
    and "\<forall>m' \<in> set (bot_messages d). bot_is_active m' \<and> bot_matches S query m' \<and> m' \<noteq> m
           \<longrightarrow> priority m' < priority m"
  shows "fst (chatbot_query S req now d) =
           JsonResponse [(''success'', JBool True),
             (''response'', JStr (if response_text m = [] then fallback_response else response_text m))] 200"
proof -
  have "find (bot_matches S query) (order_by_priority_desc (filter bot_is_active (bot_messages d))) = Some m"
    using assms(5-8) by (rule find_ordered_highest)
  then show ?thesis
    using chatbot_query_post [OF assms(1-4), of now d] by simp
qed

lemmas example_defs = post_def alice_def school_def grade_msg_def hello_msg_def silent_msg_def


lemma find_sorted_least:
  assumes "sorted (map f xs)" and "find P xs = Some m"
  shows "m \<in> set xs \<and> P m \<and> (\<forall>x \<in> set xs. P x \<longrightarrow> f m \<le> f x)"
  using assms
proof (induction xs)
  case Nil
  then show ?case by simp
next
  case (Cons a xs)
  show ?case
  proof (cases "P a")
    case True
    with Cons.prems show ?thesis by auto
  next
    case False
    with Cons.prems have "find P xs = Some m" and "sorted (map f xs)" by simp_all
    with Cons.IH have "m \<in> set xs \<and> P m \<and> (\<forall>x \<in> set xs. P x \<longrightarrow> f m \<le> f x)" by simp
    with False show ?thesis by auto
  qed
qed

lemma first_match_highest:
  assumes "find (bot_matches S query) (order_by_priority_desc (filter bot_is_active tbl)) = Some m"
  shows "m \<in> set tbl \<and> bot_is_active m \<and> bot_matches S query m
         \<and> (\<forall>m' \<in> set tbl. bot_is_active m' \<and> bot_matches S query m' \<longrightarrow> priority m' \<le> priority m)"
proof -
  have "sorted (map (\<lambda>m. - int (priority m)) (order_by_priority_desc (filter bot_is_active tbl)))"
    unfolding order_by_priority_desc_def by (rule sorted_sort_key)
  from find_sorted_least [OF this assms]
  show ?thesis by (auto simp: order_by_priority_desc_def)
qed

lemma distinct_key_eq:
  assumes "distinct (map f xs)" and "x \<in> set xs" and "y \<in> set xs" and "f x = f y"
  shows "x = y"
  using assms by (meson distinct_map inj_onD)

lemma filter_key_single:
  assumes "distinct (map f xs)" and "r \<in> set xs"
  shows "filter (\<lambda>x. f x = f r) xs = [r]"
  using assms
proof (induction xs)
  case Nil
  then show ?case by simp
next
  case (Cons a xs)
  show ?case
  proof (cases "a = r")
    case True
    with Cons.prems(1) have "f r \<notin> f ` set xs" by simp
    then have "filter (\<lambda>x. f x = f r) xs = []"
      by (metis (mono_tags, lifting) filter_False imageI)
    with True show ?thesis by simp
  next
    case False
    with Cons.prems have "r \<in> set xs" by simp
    with Cons.prems(1) have "f a \<noteq> f r" by auto
    moreover have "filter (\<lambda>x. f x = f r) xs = [r]"
      using Cons.IH Cons.prems(1) \<open>r \<in> set xs\<close> by simp
    ultimately show ?thesis by simp
  qed
qed

lemma bot_save_nth:
  assumes "distinct (map bot_id tbl)" and "m \<in> set tbl" and "i < length tbl"
  shows "bot_save (m\<lparr>usage_count := usage_count m + 1\<rparr>) now tbl ! i =
           (if bot_id (tbl ! i) = bot_id m
            then (tbl ! i)\<lparr>usage_count := usage_count (tbl ! i) + 1, bot_updated_at := now\<rparr>
            else tbl ! i)"
proof -
  have "bot_id (tbl ! i) = bot_id m \<Longrightarrow> tbl ! i = m"
    using assms by (meson distinct_key_eq nth_mem)
  with assms show ?thesis
    by (auto simp: bot_save_def)
qed

lemma bot_save_length:
  "m \<in> set tbl \<Longrightarrow> length (bot_save (m\<lparr>usage_count := usage_count m + 1\<rparr>) now tbl) = length tbl"
  by (auto simp: bot_save_def)

text \<open>
  C8: for a POST whose query is not empty once stripped and lowered, let \<open>m\<close> be the first
  record with a matching keyword among the active records in descending priority. It is a
  row of the table, no active matching record has a higher priority, it is the one row of
  its primary key, and after the view its \<open>usage_count\<close> is one more (its \<open>updated_at\<close> is
  the time of the save); every other row is what it was. When no active record matches,
  the database is unchanged.
\<close>

theorem chatbot_query_usage_count:
  assumes "distinct (map bot_id (bot_messages d))"
    and "req_user req = Some u" and "req_method req = ''POST''"
    and "query = str_lower S (str_strip S (POST_get req ''query'' ''''))" and "query \<noteq> []"
  shows "case find (bot_matches S query)
                (order_by_priority_desc (filter bot_is_active (bot_messages d))) of
           None \<Rightarrow> snd (chatbot_query S req now d) = d
         | Some m \<Rightarrow>
             m \<in> set (bot_messages d) \<and> bot_is_active m \<and> bot_matches S query m
             \<and> (\<forall>m' \<in> set (bot_messages d).
                   bot_is_active m' \<and> bot_matches S query m' \<longrightarrow> priority m' \<le> priority m)
             \<and> filter (\<lambda>r. bot_id r = bot_id m) (bot_messages d) = [m]
             \<and> (\<exists>tbl'. snd (chatbot_query S req now d) = d\<lparr>bot_messages := tbl'\<rparr>
                   \<and> length tbl' = length (bot_messages d)
                   \<and> (\<forall>i < length tbl'.
                         tbl' ! i =
                           (if bot_id (bot_messages d ! i) = bot_id m
                            then (bot_messages d ! i)
                                   \<lparr>usage_count := usage_count (bot_messages d ! i) + 1,
                                    bot_updated_at := now\<rparr>
                            else bot_messages d ! i)))"
proof (cases "find (bot_matches S query)
                (order_by_priority_desc (filter bot_is_active (bot_messages d)))")
  case None
  then show ?thesis
    using chatbot_query_post [OF assms(2-5), of now d] by simp
next
  case (Some m)
  note hi = first_match_highest [OF Some]
  then have m_in: "m \<in> set (bot_messages d)" by simp
  have single: "filter (\<lambda>r. bot_id r = bot_id m) (bot_messages d) = [m]"
    using assms(1) m_in by (rule filter_key_single)
  let ?tbl' = "bot_save (m\<lparr>usage_count := usage_count m + 1\<rparr>) now (bot_messages d)"
  have "snd (chatbot_query S req now d) = d\<lparr>bot_messages := ?tbl'\<rparr>"
    using chatbot_query_post [OF assms(2-5), of now d] Some by simp
  moreover have "length ?tbl' = length (bot_messages d)"
    using m_in by (rule bot_save_length)
  moreover have "\<forall>i < length ?tbl'. ?tbl' ! i =
       (if bot_id (bot_messages d ! i) = bot_id m
        then (bot_messages d ! i)\<lparr>usage_count := usage_count (bot_messages d ! i) + 1,
                                  bot_updated_at := now\<rparr>
        else bot_messages d ! i)"
    using bot_save_nth [OF assms(1) m_in] bot_save_length [OF m_in] by simp
  ultimately show ?thesis
    using Some hi single by auto
qed

lemma list_two:
  "length xs = 2 \<Longrightarrow> xs ! 0 = a \<Longrightarrow> xs ! 1 = b \<Longrightarrow> xs = [a, b]"
  by (cases xs; cases "tl xs") auto

lemma list_three:
  "length xs = 3 \<Longrightarrow> xs ! 0 = a \<Longrightarrow> xs ! 1 = b \<Longrightarrow> xs ! 2 = c \<Longrightarrow> xs = [a, b, c]"
  by (cases xs; cases "tl xs"; cases "tl (tl xs)") auto

theorem chatbot_query_usage_count_witness:
  "snd (chatbot_query latin1_ops (post alice ''query'' ''what is my child's grade'') 9 school) =
     school\<lparr>bot_messages :=
       [grade_msg\<lparr>usage_count := 1, bot_updated_at := 9\<rparr>, hello_msg, silent_msg]\<rparr>
   \<and> snd (chatbot_query latin1_ops (post alice ''query'' ''lunch menu'') 9 school) = school
   \<and> snd (chatbot_query latin1_ops (post alice ''query'' [CHR ''c'', CHR ''a'', CHR ''f'', CHR 0xE9]) 9
             cafe_school) =
       cafe_school\<lparr>bot_messages := [grade_msg, cafe_msg\<lparr>usage_count := 1, bot_updated_at := 9\<rparr>]\<rparr>"
proof -
  let ?r1 = "post alice ''query'' ''what is my child's grade''"
  let ?r2 = "post alice ''query'' ''lunch menu''"
  let ?r3 = "post alice ''query'' [CHR ''c'', CHR ''a'', CHR ''f'', CHR 0xE9]"
  let ?q1 = "''what is my child's grade''"
  let ?q2 = "''lunch menu''"
  let ?q3 = "[CHR ''c'', CHR ''a'', CHR ''f'', CHR 0xE9]"
  have u: "req_user ?r1 = Some alice" "req_method ?r1 = ''POST''"
    "req_user ?r2 = Some alice" "req_method ?r2 = ''POST''"
    "req_user ?r3 = Some alice" "req_method ?r3 = ''POST''"
    by (simp_all add: post_def)
  have q1: "?q1 = str_lower latin1_ops (str_strip latin1_ops (POST_get ?r1 ''query'' ''''))"
    by code_simp
  have q2: "?q2 = str_lower latin1_ops (str_strip latin1_ops (POST_get ?r2 ''query'' ''''))"
    by code_simp
  have q3: "?q3 = str_lower latin1_ops (str_strip latin1_ops (POST_get ?r3 ''query'' ''''))"
    by code_simp
  have m1: "bot_matches latin1_ops ?q1 grade_msg" "\<not> bot_matches latin1_ops ?q1 hello_msg"
    by code_simp+
  have m2: "\<not> bot_matches latin1_ops ?q2 grade_msg" "\<not> bot_matches latin1_ops ?q2 hello_msg"
    "\<not> bot_matches latin1_ops ?q2 silent_msg"
    by code_simp+
  have m3: "bot_matches latin1_ops ?q3 cafe_msg"
    by code_simp
  have tbl: "bot_messages school = [grade_msg, hello_msg, silent_msg]"
    and tbl3: "bot_messages cafe_school = [grade_msg, cafe_msg]"
    by (simp_all add: school_def cafe_school_def)
  have f: "bot_is_active grade_msg" "bot_is_active hello_msg" "bot_is_active silent_msg"
    "bot_is_active cafe_msg"
    "priority grade_msg = 5" "priority hello_msg = 10" "priority silent_msg = 1"
    "priority cafe_msg = 10"
    "bot_id grade_msg = 1" "bot_id hello_msg = 2" "bot_id silent_msg = 3" "bot_id cafe_msg = 4"
    "usage_count grade_msg = 0" "usage_count cafe_msg = 0"
    by (simp_all add: grade_msg_def hello_msg_def silent_msg_def cafe_msg_def)
  have f1: "find (bot_matches latin1_ops ?q1)
              (order_by_priority_desc (filter bot_is_active (bot_messages school))) = Some grade_msg"
    using m1 f by (simp add: tbl order_by_priority_desc_def)
  have f2: "find (bot_matches latin1_ops ?q2)
              (order_by_priority_desc (filter bot_is_active (bot_messages school))) = None"
    using m2 f by (simp add: tbl order_by_priority_desc_def)
  have f3: "find (bot_matches latin1_ops ?q3)
              (order_by_priority_desc (filter bot_is_active (bot_messages cafe_school))) = Some cafe_msg"
    using m3 f by (simp add: tbl3 order_by_priority_desc_def)
  have dist: "distinct (map bot_id (bot_messages school))"
    and dist3: "distinct (map bot_id (bot_messages cafe_school))"
    using f by (simp_all add: tbl tbl3)

  from chatbot_query_usage_count [OF dist u(1,2) q1, of 9] f1
  obtain t1 where
    a: "snd (chatbot_query latin1_ops ?r1 9 school) = school\<lparr>bot_messages := t1\<rparr>"
    and la: "length t1 = length (bot_messages school)"
    and na: "\<forall>i < length t1. t1 ! i =
       (if bot_id (bot_messages school ! i) = bot_id grade_msg
        then (bot_messages school ! i)\<lparr>usage_count := usage_count (bot_messages school ! i) + 1,
                                  bot_updated_at := 9\<rparr>
        else bot_messages school ! i)"
    by auto
  have "t1 ! 0 = grade_msg\<lparr>usage_count := 1, bot_updated_at := 9\<rparr>"
    "t1 ! 1 = hello_msg" "t1 ! 2 = silent_msg"
    using na la f by (simp_all add: tbl)
  with la have "t1 = [grade_msg\<lparr>usage_count := 1, bot_updated_at := 9\<rparr>, hello_msg, silent_msg]"
    by (intro list_three) (simp_all add: tbl)
  with a have A: "snd (chatbot_query latin1_ops ?r1 9 school) =
     school\<lparr>bot_messages :=
       [grade_msg\<lparr>usage_count := 1, bot_updated_at := 9\<rparr>, hello_msg, silent_msg]\<rparr>"
    by simp

  from chatbot_query_usage_count [OF dist u(3,4) q2, of 9] f2
  have B: "snd (chatbot_query latin1_ops ?r2 9 school) = school"
    by simp

  from chatbot_query_usage_count [OF dist3 u(5,6) q3, of 9] f3
  obtain t3 where
    c: "snd (chatbot_query latin1_ops ?r3 9 cafe_school) = cafe_school\<lparr>bot_messages := t3\<rparr>"
    and lc: "length t3 = length (bot_messages cafe_school)"
    and nc: "\<forall>i < length t3. t3 ! i =
       (if bot_id (bot_messages cafe_school ! i) = bot_id cafe_msg
        then (bot_messages cafe_school ! i)\<lparr>usage_count := usage_count (bot_messages cafe_school ! i) + 1,
                                  bot_updated_at := 9\<rparr>
        else bot_messages cafe_school ! i)"
    by auto
  have "t3 ! 0 = grade_msg" "t3 ! 1 = cafe_msg\<lparr>usage_count := 1, bot_updated_at := 9\<rparr>"
    using nc lc f by (simp_all add: tbl3)
  with lc have "t3 = [grade_msg, cafe_msg\<lparr>usage_count := 1, bot_updated_at := 9\<rparr>]"
    by (intro list_two) (simp_all add: tbl3)
  with c have C: "snd (chatbot_query latin1_ops ?r3 9 cafe_school) =
       cafe_school\<lparr>bot_messages := [grade_msg, cafe_msg\<lparr>usage_count := 1, bot_updated_at := 9\<rparr>]\<rparr>"
    by simp
  from A B C show ?thesis by simp
qed

section \<open>Properties of the chat\<close>

lemma filter_key_and_single:
  assumes "distinct (map f xs)" and "r \<in> set xs" and "Q r"
  shows "filter (\<lambda>x. f x = f r \<and> Q x) xs = [r]"
proof -
  have "filter (\<lambda>x. f x = f r \<and> Q x) xs = filter Q (filter (\<lambda>x. f x = f r) xs)"
    by (simp add: conj_commute)
  also have "\<dots> = filter Q [r]"
    using assms(1,2) by (simp add: filter_key_single)
  finally show ?thesis using assms(3) by simp
qed

lemma get_object_or_404_single:
  "filter P rows = [r] \<Longrightarrow> get_object_or_404 P rows = Inr r"
  by (simp add: get_object_or_404_def objects_get_def)

lemma get_object_or_404_none:
  "filter P rows = [] \<Longrightarrow> get_object_or_404 P rows = Inl Http404"
  by (simp add: get_object_or_404_def objects_get_def)

lemma room_save_existing:
  "r \<in> set tbl \<Longrightarrow>
   room_save (r\<lparr>last_message_at := v\<rparr>) now tbl =
     map (\<lambda>x. if room_id x = room_id r then r\<lparr>last_message_at := v, room_updated_at := now\<rparr> else x) tbl"
  by (auto simp: room_save_def)

lemma str_strip_blank_iff:
  "str_strip S s = [] \<longleftrightarrow> (\<forall>c \<in> set s. str_isspace S c)"
proof
  assume e: "str_strip S s = []"
  show "\<forall>c \<in> set s. str_isspace S c"
  proof (rule ccontr)
    assume "\<not> (\<forall>c \<in> set s. str_isspace S c)"
    then have "dropWhile (str_isspace S) s \<noteq> []"
      by simp
    then obtain y ys where d: "dropWhile (str_isspace S) s = y # ys"
      by (cases "dropWhile (str_isspace S) s") auto
    then have y: "\<not> str_isspace S y"
      by (metis hd_dropWhile list.sel(1) list.distinct(1))
    from e have "dropWhile (str_isspace S) (rev (y # ys)) = []"
      by (simp add: str_strip_def d)
    then have "\<forall>x \<in> set (rev (y # ys)). str_isspace S x"
      by (simp only: dropWhile_eq_Nil_conv)
    with y show False by simp
  qed
next
  assume "\<forall>c \<in> set s. str_isspace S c"
  then have "dropWhile (str_isspace S) s = []"
    by simp
  then show "str_strip S s = []"
    by (simp add: str_strip_def del: dropWhile_eq_Nil_conv)
qed

lemma send_message_blank:
  assumes "req_user req = Some u" and "req_method req = ''POST''"
    and "str_strip S (POST_get req ''content'' '''') = []"
  shows "send_message S req rid t1 t2 t3 d =
           (JsonResponse [(''error'', JStr ''Message cannot be empty'')] 400, d)"
  using assms by (simp add: send_message_def)

lemma send_message_participant:
  assumes "req_user req = Some u" and "req_method req = ''POST''"
    and "c = str_strip S (POST_get req ''content'' '''')" and "c \<noteq> []"
    and "distinct (map room_id (chat_rooms d))" and "r \<in> set (chat_rooms d)"
    and "room_id r = rid" and "room_participant u r"
  shows "send_message S req rid t1 t2 t3 d =
           (JsonResponse
              [(''success'', JBool True),
               (''message_id'', JInt (Suc (chat_message_seq d))),
               (''content'', JStr c),
               (''created_at'', JIso t1)] 200,
            d\<lparr>chat_messages := chat_messages d @
                 [\<lparr>msg_id = Suc (chat_message_seq d),
                   msg_chat_room = rid, sender = user_id u,
                   message_type = ''text'', content = c,
                   msg_is_read = False, msg_read_at = None,
                   is_edited = False, edited_at = None, msg_created_at = t1\<rparr>],
              chat_message_seq := Suc (chat_message_seq d),
              chat_rooms :=
                 map (\<lambda>x. if room_id x = rid
                          then r\<lparr>last_message_at := Some t2, room_updated_at := t3\<rparr> else x)
                     (chat_rooms d)\<rparr>)"
proof -
  from assms(8) consider
      (parent) "is_parent u" "parent_profile u = Some (room_parent r)"
    | (teacher) "is_teacher u" "teacher_profile u = Some (room_teacher r)"
    by (auto simp: room_participant_def)
  then show ?thesis
  proof cases
    case parent
    have "filter (\<lambda>x. room_id x = room_id r \<and> room_parent x = room_parent r) (chat_rooms d) = [r]"
      using assms(5,6) by (rule filter_key_and_single) simp
    then have "get_object_or_404 (\<lambda>x. room_id x = rid \<and> room_parent x = room_parent r) (chat_rooms d)
                 = (Inr r :: unit response + chat_room)"
      using assms(7) by (simp add: get_object_or_404_single)
    then show ?thesis
      using assms(1-4,6,7) parent
      by (simp add: send_message_def Let_def room_save_existing)
  next
    case teacher
    then have np: "\<not> is_parent u" by (simp add: is_parent_def is_teacher_def)
    have "filter (\<lambda>x. room_id x = room_id r \<and> room_teacher x = room_teacher r) (chat_rooms d) = [r]"
      using assms(5,6) by (rule filter_key_and_single) simp
    then have "get_object_or_404 (\<lambda>x. room_id x = rid \<and> room_teacher x = room_teacher r) (chat_rooms d)
                 = (Inr r :: unit response + chat_room)"
      using assms(7) by (simp add: get_object_or_404_single)
    then show ?thesis
      using assms(1-4,6,7) teacher np
      by (simp add: send_message_def Let_def room_save_existing)
  qed
qed

lemma send_message_other_role:
  assumes "req_user req = Some u" and "req_method req = ''POST''"
    and "str_strip S (POST_get req ''content'' '''') \<noteq> []"
    and "\<not> is_parent u" and "\<not> is_teacher u"
  shows "send_message S req rid t1 t2 t3 d =
           (JsonResponse [(''error'', JStr ''Unauthorized'')] 403, d)"
  using assms by (simp add: send_message_def Let_def)

text \<open>
  C3: the content of a POST to \<open>send_message\<close> is empty after stripping exactly when it is
  empty or consists only of whitespace. Such a POST is answered with the error JSON and
  status 400, and the database (messages, rooms, every field) is what it was. Content that
  is not empty after stripping, sent by a participant of the room, adds exactly one row to
  the chat messages.
\<close>

theorem send_message_blank_rejected:
  assumes "req_user req = Some u" and "req_method req = ''POST''"
    and "c = str_strip S (POST_get req ''content'' '''')"
  shows "(c = [] \<longleftrightarrow> (\<forall>ch \<in> set (POST_get req ''content'' ''''). str_isspace S ch))
         \<and> (c = [] \<longrightarrow>
            send_message S req rid t1 t2 t3 d =
              (JsonResponse [(''error'', JStr ''Message cannot be empty'')] 400, d))
         \<and> (c \<noteq> [] \<and> distinct (map room_id (chat_rooms d))
              \<and> (\<exists>r \<in> set (chat_rooms d). room_id r = rid \<and> room_participant u r) \<longrightarrow>
            (\<exists>m. chat_messages (snd (send_message S req rid t1 t2 t3 d)) = chat_messages d @ [m]
                  \<and> content m = c))"
proof (intro conjI impI)
  show "c = [] \<longleftrightarrow> (\<forall>ch \<in> set (POST_get req ''content'' ''''). str_isspace S ch)"
    unfolding assms(3) by (rule str_strip_blank_iff)
next
  assume "c = []"
  with assms show "send_message S req rid t1 t2 t3 d =
      (JsonResponse [(''error'', JStr ''Message cannot be empty'')] 400, d)"
    by (simp add: send_message_blank)
next
  assume h: "c \<noteq> [] \<and> distinct (map room_id (chat_rooms d))
              \<and> (\<exists>r \<in> set (chat_rooms d). room_id r = rid \<and> room_participant u r)"
  then obtain r where r: "r \<in> set (chat_rooms d)" "room_id r = rid" "room_participant u r"
    by blast
  from h have ne: "c \<noteq> []" and dist: "distinct (map room_id (chat_rooms d))" by simp_all
  show "\<exists>m. chat_messages (snd (send_message S req rid t1 t2 t3 d)) = chat_messages d @ [m]
            \<and> content m = c"
    by (simp add: send_message_participant [OF assms ne dist r])
qed

theorem send_message_blank_rejected_witness:
  "send_message latin1_ops (post alice ''content'' [CHR 0xA0, CHR '' '', CHR 0x85]) 1 4 5 6 school =
     (JsonResponse [(''error'', JStr ''Message cannot be empty'')] 400, school)
   \<and> (\<exists>m. chat_messages
             (snd (send_message latin1_ops (post alice ''content'' '' See you at 3 '') 1 4 5 6 school))
             = chat_messages school @ [m]
           \<and> content m = ''See you at 3'')"
proof -
  let ?blank = "post alice ''content'' [CHR 0xA0, CHR '' '', CHR 0x85]"
  let ?req = "post alice ''content'' '' See you at 3 ''"
  have ub: "req_user ?blank = Some alice" "req_method ?blank = ''POST''"
    and ur: "req_user ?req = Some alice" "req_method ?req = ''POST''"
    by (simp_all add: post_def)
  have cb: "[] = str_strip latin1_ops (POST_get ?blank ''content'' '''')"
    by (simp add: post_def POST_get_def str_strip_def latin1_ops_def)
  have cr: "''See you at 3'' = str_strip latin1_ops (POST_get ?req ''content'' '''')"
    by (simp add: post_def POST_get_def str_strip_def latin1_ops_def)
  have dist: "distinct (map room_id (chat_rooms school))"
    by (simp add: school_def)
  have part: "\<exists>r \<in> set (chat_rooms school). room_id r = 1 \<and> room_participant alice r"
    by (simp add: school_def room1_def alice_def room_participant_def is_parent_def)
  from send_message_blank_rejected
    [OF ub cb, where rid = 1 and d = school and ?t1.0 = 4 and ?t2.0 = 5 and ?t3.0 = 6]
  have first: "send_message latin1_ops ?blank 1 4 5 6 school =
     (JsonResponse [(''error'', JStr ''Message cannot be empty'')] 400, school)"
    by simp
  from send_message_blank_rejected
    [OF ur cr, where rid = 1 and d = school and ?t1.0 = 4 and ?t2.0 = 5 and ?t3.0 = 6]
    dist part
  have "\<exists>m. chat_messages (snd (send_message latin1_ops ?req 1 4 5 6 school))
              = chat_messages school @ [m]
           \<and> content m = ''See you at 3''"
    by simp
  with first show ?thesis by simp
qed

text \<open>
  C9: a participant of the room (its parent or its teacher) who sends content that is not
  empty after stripping gets the JSON \<open>{success, message_id, content, created_at}\<close>; one
  message with that content, the sender's identity, the room and the next key of the
  sequence is added, and the room's \<open>last_message_at\<close> becomes the time read by
  \<open>timezone.now()\<close>. A user whose role is neither parent nor teacher gets the error JSON
  with status 403, and nothing is written.
\<close>

theorem send_message_by_participant:
  assumes "req_user req = Some u" and "req_method req = ''POST''"
    and "c = str_strip S (POST_get req ''content'' '''')" and "c \<noteq> []"
  shows "(\<forall>r. distinct (map room_id (chat_rooms d)) \<and> r \<in> set (chat_rooms d)
               \<and> room_id r = rid \<and> room_participant u r \<longrightarrow>
            send_message S req rid t1 t2 t3 d =
              (JsonResponse
                 [(''success'', JBool True),
                  (''message_id'', JInt (Suc (chat_message_seq d))),
                  (''content'', JStr c),
                  (''created_at'', JIso t1)] 200,
               d\<lparr>chat_messages := chat_messages d @
                    [\<lparr>msg_id = Suc (chat_message_seq d),
                      msg_chat_room = rid, sender = user_id u,
                      message_type = ''text'', content = c,
                      msg_is_read = False, msg_read_at = None,
                      is_edited = False, edited_at = None, msg_created_at = t1\<rparr>],
                 chat_message_seq := Suc (chat_message_seq d),
                 chat_rooms :=
                    map (\<lambda>x. if room_id x = rid
                             then r\<lparr>last_message_at := Some t2, room_updated_at := t3\<rparr> else x)
                        (chat_rooms d)\<rparr>))
         \<and> (\<not> is_parent u \<and> \<not> is_teacher u \<longrightarrow>
              send_message S req rid t1 t2 t3 d =
                (JsonResponse [(''error'', JStr ''Unauthorized'')] 403, d))"
proof (intro conjI allI impI)
  fix r
  assume "distinct (map room_id (chat_rooms d)) \<and> r \<in> set (chat_rooms d)
            \<and> room_id r = rid \<and> room_participant u r"
  then have "distinct (map room_id (chat_rooms d))" "r \<in> set (chat_rooms d)"
    "room_id r = rid" "room_participant u r"
    by simp_all
  from send_message_participant [OF assms this]
  show "send_message S req rid t1 t2 t3 d =
      (JsonResponse
         [(''success'', JBool True),
          (''message_id'', JInt (Suc (chat_message_seq d))),
          (''content'', JStr c),
          (''created_at'', JIso t1)] 200,
       d\<lparr>chat_messages := chat_messages d @
            [\<lparr>msg_id = Suc (chat_message_seq d),
              msg_chat_room = rid, sender = user_id u,
              message_type = ''text'', content = c,
              msg_is_read = False, msg_read_at = None,
              is_edited = False, edited_at = None, msg_created_at = t1\<rparr>],
         chat_message_seq := Suc (chat_message_seq d),
         chat_rooms :=
            map (\<lambda>x. if room_id x = rid
                     then r\<lparr>last_message_at := Some t2, room_updated_at := t3\<rparr> else x)
                (chat_rooms d)\<rparr>)" .
next
  assume "\<not> is_parent u \<and> \<not> is_teacher u"
  with assms show "send_message S req rid t1 t2 t3 d =
      (JsonResponse [(''error'', JStr ''Unauthorized'')] 403, d)"
    by (simp add: send_message_other_role)
qed

theorem send_message_by_participant_witness:
  "send_message latin1_ops (post bob ''content'' [CHR ''h'', CHR ''i'', CHR 0xA0]) 1 4 5 6 school =
     (JsonResponse
        [(''success'', JBool True), (''message_id'', JInt 6),
         (''content'', JStr ''hi''), (''created_at'', JIso 4)] 200,
      school\<lparr>chat_messages :=
          [msg1,
           \<lparr>msg_id = 6, msg_chat_room = 1, sender = 2, message_type = ''text'',
            content = ''hi'', msg_is_read = False, msg_read_at = None,
            is_edited = False, edited_at = None, msg_created_at = 4\<rparr>],
        chat_message_seq := 6,
        chat_rooms := [room1\<lparr>last_message_at := Some 5, room_updated_at := 6\<rparr>]\<rparr>)
   \<and> send_message latin1_ops (post carol ''content'' ''hi'') 1 4 5 6 school =
       (JsonResponse [(''error'', JStr ''Unauthorized'')] 403, school)"
proof -
  let ?req = "post bob ''content'' [CHR ''h'', CHR ''i'', CHR 0xA0]"
  let ?adm = "post carol ''content'' ''hi''"
  have ur: "req_user ?req = Some bob" "req_method ?req = ''POST''"
    and ua: "req_user ?adm = Some carol" "req_method ?adm = ''POST''"
    by (simp_all add: post_def)
  have cr: "''hi'' = str_strip latin1_ops (POST_get ?req ''content'' '''')"
    and ca: "''hi'' = str_strip latin1_ops (POST_get ?adm ''content'' '''')"
    by (simp_all add: post_def POST_get_def str_strip_def latin1_ops_def)
  have ne: "''hi'' \<noteq> []" by simp
  have r: "distinct (map room_id (chat_rooms school)) \<and> room1 \<in> set (chat_rooms school)
            \<and> room_id room1 = 1 \<and> room_participant bob room1"
    by (simp add: school_def room1_def bob_def room_participant_def is_teacher_def)
  have other: "\<not> is_parent carol \<and> \<not> is_teacher carol"
    by (simp add: carol_def is_parent_def is_teacher_def)
  have tbls: "chat_messages school = [msg1]" "chat_rooms school = [room1]"
    "chat_message_seq school = 5"
    by (simp_all add: school_def)
  have ids: "room_id room1 = 1" "user_id bob = 2"
    by (simp_all add: room1_def bob_def)
  from send_message_by_participant
    [OF ur cr ne, where rid = 1 and d = school and ?t1.0 = 4 and ?t2.0 = 5 and ?t3.0 = 6] r
  have first: "send_message latin1_ops ?req 1 4 5 6 school =
     (JsonResponse
        [(''success'', JBool True), (''message_id'', JInt 6),
         (''content'', JStr ''hi''), (''created_at'', JIso 4)] 200,
      school\<lparr>chat_messages :=
          [msg1,
           \<lparr>msg_id = 6, msg_chat_room = 1, sender = 2, message_type = ''text'',
            content = ''hi'', msg_is_read = False, msg_read_at = None,
            is_edited = False, edited_at = None, msg_created_at = 4\<rparr>],
        chat_message_seq := 6,
        chat_rooms := [room1\<lparr>last_message_at := Some 5, room_updated_at := 6\<rparr>]\<rparr>)"
    by (simp add: tbls ids)
  from send_message_by_participant
    [OF ua ca ne, where rid = 1 and d = school and ?t1.0 = 4 and ?t2.0 = 5 and ?t3.0 = 6] other
  have "send_message latin1_ops ?adm 1 4 5 6 school =
       (JsonResponse [(''error'', JStr ''Unauthorized'')] 403, school)"
    by simp
  with first show ?thesis by simp
qed

lemma filter_key_cases:
  assumes "distinct (map g xs)"
  shows "filter (\<lambda>x. g x = k) xs = []
         \<or> (\<exists>r \<in> set xs. g r = k \<and> filter (\<lambda>x. g x = k) xs = [r])"
proof (cases "k \<in> g ` set xs")
  case True
  then obtain r where r: "r \<in> set xs" "g r = k" by auto
  from filter_key_single [OF assms r(1)] r show ?thesis by auto
next
  case False
  then have "filter (\<lambda>x. g x = k) xs = []"
    by (auto simp: filter_empty_conv)
  then show ?thesis by simp
qed

lemma pair_filter:
  "filter (\<lambda>r. room_parent r = p \<and> room_teacher r = t) rooms =
   filter (\<lambda>r. (room_parent r, room_teacher r) = (p, t)) rooms"
  by simp

lemma teacher_found:
  assumes "distinct (teachers d)" and "tid \<in> set (teachers d)"
  shows "get_object_or_404 (\<lambda>t. t = tid) (teachers d) = Inr tid"
proof -
  have "distinct (map (\<lambda>x. x) (teachers d))" using assms(1) by simp
  from filter_key_single [OF this assms(2)]
  show ?thesis by (simp add: get_object_or_404_single)
qed

lemma start_chat_existing:
  assumes "req_user req = Some u" and "is_parent u" and "parent_profile u = Some p"
    and "get_object_or_404 (\<lambda>t. t = tid) (teachers d) = (Inr tid :: unit response + nat)"
    and "filter (\<lambda>r. room_parent r = p \<and> room_teacher r = tid) (chat_rooms d) = [r]"
  shows "start_chat req tid now d = (Redirect ''information:chat_room'' [room_id r], [], d)"
  using assms by (simp add: start_chat_def objects_get_def)

lemma start_chat_new:
  assumes "req_user req = Some u" and "is_parent u" and "parent_profile u = Some p"
    and "get_object_or_404 (\<lambda>t. t = tid) (teachers d) = (Inr tid :: unit response + nat)"
    and "filter (\<lambda>r. room_parent r = p \<and> room_teacher r = tid) (chat_rooms d) = []"
  shows "start_chat req tid now d =
           (Redirect ''information:chat_room'' [Suc (chat_room_seq d)],
            [Success ''Chat started successfully!''],
            d\<lparr>chat_rooms := chat_rooms d @
                 [\<lparr>room_id = Suc (chat_room_seq d),
                   room_parent = p, room_teacher = tid,
                   subject = '''', room_is_active = True, is_archived = False,
                   last_message_at = None, room_created_at = now, room_updated_at = now\<rparr>],
              chat_room_seq := Suc (chat_room_seq d)\<rparr>)"
  using assms by (simp add: start_chat_def objects_get_def Let_def)

lemma rooms_unique_insert:
  assumes "rooms_unique d"
    and "filter (\<lambda>r. room_parent r = p \<and> room_teacher r = t) (chat_rooms d) = []"
    and "room_id new = Suc (chat_room_seq d)"
    and "room_parent new = p" and "room_teacher new = t"
  shows "rooms_unique (d\<lparr>chat_rooms := chat_rooms d @ [new],
                        chat_room_seq := Suc (chat_room_seq d)\<rparr>)"
proof -
  have bound: "\<forall>r \<in> set (chat_rooms d). room_id r \<le> chat_room_seq d"
    using assms(1) by (simp add: rooms_unique_def)
  then have "room_id new \<notin> set (map room_id (chat_rooms d))"
    using assms(3) by auto
  moreover have "(p, t) \<notin> set (map (\<lambda>r. (room_parent r, room_teacher r)) (chat_rooms d))"
    using assms(2) by (auto simp: filter_empty_conv)
  moreover have "\<forall>r \<in> set (chat_rooms d). room_id r \<le> Suc (chat_room_seq d)"
    using bound by auto
  ultimately show ?thesis
    using assms(1,3,4,5) by (simp add: rooms_unique_def)
qed

lemma start_chat_preserves_rooms_unique:
  assumes "rooms_unique d"
  shows "rooms_unique (snd (snd (start_chat req tid now d)))"
proof -
  have new: "\<And>p t. filter (\<lambda>r. room_parent r = p \<and> room_teacher r = t) (chat_rooms d) = [] \<Longrightarrow>
      rooms_unique (d\<lparr>chat_rooms := chat_rooms d @
         [\<lparr>room_id = Suc (chat_room_seq d),
           room_parent = p, room_teacher = t,
           subject = '''', room_is_active = True, is_archived = False,
           last_message_at = None, room_created_at = now, room_updated_at = now\<rparr>],
         chat_room_seq := Suc (chat_room_seq d)\<rparr>)"
    using assms by (rule rooms_unique_insert) simp_all
  show ?thesis
    using assms new
    by (auto simp: start_chat_def objects_get_def Let_def
        split: option.splits sum.splits list.splits lookup.splits)
qed

lemma room_save_keys:
  assumes "r \<in> set tbl"
  shows "map room_id (room_save (r\<lparr>last_message_at := v\<rparr>) now tbl) = map room_id tbl"
    and "distinct (map room_id tbl) \<Longrightarrow>
         map (\<lambda>x. (room_parent x, room_teacher x)) (room_save (r\<lparr>last_message_at := v\<rparr>) now tbl)
           = map (\<lambda>x. (room_parent x, room_teacher x)) tbl"
proof -
  show "map room_id (room_save (r\<lparr>last_message_at := v\<rparr>) now tbl) = map room_id tbl"
    using assms by (simp add: room_save_existing)
  assume dist: "distinct (map room_id tbl)"
  have "\<And>x. x \<in> set tbl \<Longrightarrow> room_id x = room_id r \<Longrightarrow> x = r"
    using dist assms by (meson distinct_key_eq)
  then show "map (\<lambda>x. (room_parent x, room_teacher x)) (room_save (r\<lparr>last_message_at := v\<rparr>) now tbl)
           = map (\<lambda>x. (room_parent x, room_teacher x)) tbl"
    using assms by (auto simp: room_save_existing)
qed

lemma get_object_or_404_mem:
  "get_object_or_404 P rows = Inr r \<Longrightarrow> r \<in> set rows"
proof -
  assume h: "get_object_or_404 P rows = Inr r"
  then have "filter P rows = [r]"
    by (auto simp: get_object_or_404_def objects_get_def split: list.splits)
  then have "r \<in> set (filter P rows)" by simp
  then show ?thesis by simp
qed

lemma send_message_preserves_rooms_unique:
  assumes "rooms_unique d"
  shows "rooms_unique (snd (send_message S req rid t1 t2 t3 d))"
proof -
  have ids: "\<And>r. r \<in> set (chat_rooms d) \<Longrightarrow>
      room_id ` set (room_save (r\<lparr>last_message_at := Some t2\<rparr>) t3 (chat_rooms d))
        = room_id ` set (chat_rooms d)"
    by (metis room_save_keys(1) set_map)
  have upd: "\<And>r msgs n. r \<in> set (chat_rooms d) \<Longrightarrow>
      rooms_unique (d\<lparr>chat_messages := msgs, chat_message_seq := n,
                      chat_rooms := room_save (r\<lparr>last_message_at := Some t2\<rparr>) t3 (chat_rooms d)\<rparr>)"
  proof -
    fix r msgs n
    assume r: "r \<in> set (chat_rooms d)"
    have "\<forall>x \<in> set (room_save (r\<lparr>last_message_at := Some t2\<rparr>) t3 (chat_rooms d)).
            room_id x \<le> chat_room_seq d"
    proof
      fix x
      assume "x \<in> set (room_save (r\<lparr>last_message_at := Some t2\<rparr>) t3 (chat_rooms d))"
      then have "room_id x \<in> room_id ` set (chat_rooms d)"
        using ids [OF r] by blast
      then show "room_id x \<le> chat_room_seq d"
        using assms by (auto simp: rooms_unique_def)
    qed
    then show "rooms_unique (d\<lparr>chat_messages := msgs, chat_message_seq := n,
                      chat_rooms := room_save (r\<lparr>last_message_at := Some t2\<rparr>) t3 (chat_rooms d)\<rparr>)"
      using assms r by (simp add: rooms_unique_def room_save_keys)
  qed
  show ?thesis
    using assms upd
    by (auto simp: send_message_def Let_def dest!: get_object_or_404_mem
        split: option.splits sum.splits if_splits)
qed

text \<open>
  C5: the database keeps at most one chat room per (parent, teacher) pair, and both views
  that write chat rooms keep it so. For a parent and an existing teacher, \<open>start_chat\<close>
  redirects to a room of the pair; called again on the resulting database it redirects to
  the same room and leaves the database as it is, in which exactly one room has that pair.
\<close>

theorem start_chat_same_room:
  assumes "rooms_unique d" and "distinct (teachers d)"
    and "req_user req = Some u" and "is_parent u" and "parent_profile u = Some p"
    and "tid \<in> set (teachers d)"
  shows "(\<exists>rid fl d1.
            start_chat req tid t1 d = (Redirect ''information:chat_room'' [rid], fl, d1)
          \<and> start_chat req tid t2 d1 = (Redirect ''information:chat_room'' [rid], [], d1)
          \<and> rooms_unique d1
          \<and> (\<exists>r. filter (\<lambda>x. room_parent x = p \<and> room_teacher x = tid) (chat_rooms d1) = [r]
                  \<and> room_id r = rid))
         \<and> (\<forall>req' tid' now'. rooms_unique (snd (snd (start_chat req' tid' now' d))))
         \<and> (\<forall>S req' rid' a b c. rooms_unique (snd (send_message S req' rid' a b c d)))"
proof (intro conjI allI)
  have teacher: "get_object_or_404 (\<lambda>t. t = tid) (teachers d) = (Inr tid :: unit response + nat)"
    using assms(2,6) by (rule teacher_found)
  have "distinct (map (\<lambda>r. (room_parent r, room_teacher r)) (chat_rooms d))"
    using assms(1) by (simp add: rooms_unique_def)
  from filter_key_cases [OF this, of "(p, tid)"]
  consider
      (none) "filter (\<lambda>r. room_parent r = p \<and> room_teacher r = tid) (chat_rooms d) = []"
    | (one) r where "filter (\<lambda>r. room_parent r = p \<and> room_teacher r = tid) (chat_rooms d) = [r]"
    by auto
  then show "\<exists>rid fl d1.
            start_chat req tid t1 d = (Redirect ''information:chat_room'' [rid], fl, d1)
          \<and> start_chat req tid t2 d1 = (Redirect ''information:chat_room'' [rid], [], d1)
          \<and> rooms_unique d1
          \<and> (\<exists>r. filter (\<lambda>x. room_parent x = p \<and> room_teacher x = tid) (chat_rooms d1) = [r]
                  \<and> room_id r = rid)"
  proof cases
    case one
    have "start_chat req tid t1 d = (Redirect ''information:chat_room'' [room_id r], [], d)"
      and "start_chat req tid t2 d = (Redirect ''information:chat_room'' [room_id r], [], d)"
      using assms(3-5) teacher one by (rule start_chat_existing)+
    with assms(1) one show ?thesis by blast
  next
    case none
    let ?new = "\<lparr>room_id = Suc (chat_room_seq d),
                  room_parent = p, room_teacher = tid,
                  subject = '''', room_is_active = True, is_archived = False,
                  last_message_at = None, room_created_at = t1, room_updated_at = t1\<rparr>"
    let ?d1 = "d\<lparr>chat_rooms := chat_rooms d @ [?new], chat_room_seq := Suc (chat_room_seq d)\<rparr>"
    have first: "start_chat req tid t1 d =
        (Redirect ''information:chat_room'' [room_id ?new], [Success ''Chat started successfully!''], ?d1)"
      using start_chat_new [OF assms(3-5) teacher none, of t1] by simp
    have one: "filter (\<lambda>x. room_parent x = p \<and> room_teacher x = tid) (chat_rooms ?d1) = [?new]"
      using none by simp
    have teacher1: "get_object_or_404 (\<lambda>t. t = tid) (teachers ?d1) = (Inr tid :: unit response + nat)"
      using teacher by simp
    have second: "start_chat req tid t2 ?d1 = (Redirect ''information:chat_room'' [room_id ?new], [], ?d1)"
      using assms(3-5) teacher1 one by (rule start_chat_existing)
    have "rooms_unique ?d1"
      using assms(1) none by (rule rooms_unique_insert) simp_all
    with first second one show ?thesis by blast
  qed
next
  fix req' tid' now'
  show "rooms_unique (snd (snd (start_chat req' tid' now' d)))"
    using assms(1) by (rule start_chat_preserves_rooms_unique)
next
  fix S req' rid' a b c
  show "rooms_unique (snd (send_message S req' rid' a b c d))"
    using assms(1) by (rule send_message_preserves_rooms_unique)
qed

theorem start_chat_same_room_witness:
  "start_chat (get_request alice) 2 7 school =
     (Redirect ''information:chat_room'' [2], [Success ''Chat started successfully!''],
      school\<lparr>chat_rooms :=
        [room1,
         \<lparr>room_id = 2, room_parent = 1, room_teacher = 2, subject = '''',
          room_is_active = True, is_archived = False, last_message_at = None,
          room_created_at = 7, room_updated_at = 7\<rparr>],
        chat_room_seq := 2\<rparr>)
   \<and> start_chat (get_request alice) 2 8
        (school\<lparr>chat_rooms :=
          [room1,
           \<lparr>room_id = 2, room_parent = 1, room_teacher = 2, subject = '''',
            room_is_active = True, is_archived = False, last_message_at = None,
            room_created_at = 7, room_updated_at = 7\<rparr>],
          chat_room_seq := 2\<rparr>) =
     (Redirect ''information:chat_room'' [2], [],
      school\<lparr>chat_rooms :=
        [room1,
         \<lparr>room_id = 2, room_parent = 1, room_teacher = 2, subject = '''',
          room_is_active = True, is_archived = False, last_message_at = None,
          room_created_at = 7, room_updated_at = 7\<rparr>],
        chat_room_seq := 2\<rparr>)"
proof -
  let ?req = "get_request alice"
  let ?d1 = "school\<lparr>chat_rooms :=
        [room1,
         \<lparr>room_id = 2, room_parent = 1, room_teacher = 2, subject = '''',
          room_is_active = True, is_archived = False, last_message_at = None,
          room_created_at = 7, room_updated_at = 7\<rparr>],
        chat_room_seq := 2\<rparr>"
  have uniq: "rooms_unique school"
    by (simp add: rooms_unique_def school_def room1_def)
  have dist: "distinct (teachers school)" and mem: "2 \<in> set (teachers school)"
    by (simp_all add: school_def)
  have u: "req_user ?req = Some alice" "is_parent alice" "parent_profile alice = Some 1"
    by (simp_all add: get_request_def alice_def is_parent_def)
  have first: "start_chat ?req 2 7 school =
     (Redirect ''information:chat_room'' [2], [Success ''Chat started successfully!''], ?d1)"
    by (simp add: start_chat_def get_request_def alice_def is_parent_def school_def room1_def
        get_object_or_404_def objects_get_def)
  from start_chat_same_room [OF uniq dist u mem, where ?t1.0 = 7 and ?t2.0 = 8]
  obtain rid fl d1 where
    a: "start_chat ?req 2 7 school = (Redirect ''information:chat_room'' [rid], fl, d1)"
    and b: "start_chat ?req 2 8 d1 = (Redirect ''information:chat_room'' [rid], [], d1)"
    by blast
  from a first have "rid = 2" and "d1 = ?d1" by simp_all
  with b have "start_chat ?req 2 8 ?d1 = (Redirect ''information:chat_room'' [2], [], ?d1)"
    by simp
  with first show ?thesis by simp
qed

text \<open>
  C6: after \<open>mark_as_read\<close> a message is read, and a message that was unread carries the
  time of the call in \<open>read_at\<close>; a second call returns the same object and the same table,
  so \<open>is_read\<close> stays true and \<open>read_at\<close> is the one the first call set.
\<close>

theorem mark_as_read_idempotent:
  "msg_is_read (fst (mark_as_read m t1 tbl))
   \<and> (\<not> msg_is_read m \<longrightarrow> msg_read_at (fst (mark_as_read m t1 tbl)) = Some t1)
   \<and> mark_as_read (fst (mark_as_read m t1 tbl)) t2 (snd (mark_as_read m t1 tbl))
       = mark_as_read m t1 tbl
   \<and> msg_read_at (fst (mark_as_read (fst (mark_as_read m t1 tbl)) t2 (snd (mark_as_read m t1 tbl))))
       = msg_read_at (fst (mark_as_read m t1 tbl))"
  by (simp add: mark_as_read_def Let_def)

theorem mark_as_read_idempotent_witness:
  "mark_as_read msg1 10 [msg1] =
     (msg1\<lparr>msg_is_read := True, msg_read_at := Some 10\<rparr>,
      [msg1\<lparr>msg_is_read := True, msg_read_at := Some 10\<rparr>])
   \<and> mark_as_read (msg1\<lparr>msg_is_read := True, msg_read_at := Some 10\<rparr>) 20
        [msg1\<lparr>msg_is_read := True, msg_read_at := Some 10\<rparr>] =
     (msg1\<lparr>msg_is_read := True, msg_read_at := Some 10\<rparr>,
      [msg1\<lparr>msg_is_read := True, msg_read_at := Some 10\<rparr>])"
proof -
  have first: "mark_as_read msg1 10 [msg1] =
     (msg1\<lparr>msg_is_read := True, msg_read_at := Some 10\<rparr>,
      [msg1\<lparr>msg_is_read := True, msg_read_at := Some 10\<rparr>])"
    by (simp add: mark_as_read_def msg_save_def msg1_def Let_def)
  from mark_as_read_idempotent [of msg1 10 "[msg1]" 20]
  have "mark_as_read (fst (mark_as_read msg1 10 [msg1])) 20 (snd (mark_as_read msg1 10 [msg1]))
          = mark_as_read msg1 10 [msg1]"
    by simp
  with first show ?thesis by simp
qed

section \<open>Properties of the notifications\<close>


lemma notif_save_existing:
  assumes "distinct (map notif_id tbl)" and "n \<in> set tbl" and "notif_id n' = notif_id n"
    and "i < length tbl"
  shows "notif_save n' tbl ! i = (if notif_id (tbl ! i) = notif_id n then n' else tbl ! i)"
    and "length (notif_save n' tbl) = length tbl"
  using assms by (auto simp: notif_save_def)

lemma mark_notification_read_unread:
  assumes "req_user req = Some u"
    and "distinct (map notif_id (notifications d))" and "n \<in> set (notifications d)"
    and "notif_id n = nid" and "recipient n = user_id u" and "\<not> notif_is_read n"
  shows "snd (mark_notification_read req nid now d) =
           d\<lparr>notifications :=
                notif_save (n\<lparr>notif_is_read := True, notif_read_at := Some now\<rparr>) (notifications d)\<rparr>"
proof -
  have "filter (\<lambda>x. notif_id x = notif_id n \<and> recipient x = user_id u) (notifications d) = [n]"
    using assms(2,3,5) by (rule filter_key_and_single)
  then have "get_object_or_404 (\<lambda>x. notif_id x = nid \<and> recipient x = user_id u) (notifications d)
               = (Inr n :: unit response + notification)"
    using assms(4) by (simp add: get_object_or_404_single)
  then show ?thesis
    using assms(1,6)
    by (simp add: mark_notification_read_def notification_mark_as_read_def Let_def)
qed

text \<open>
  C10: \<open>mark_all_notifications_read\<close> sets \<open>is_read\<close> on the unread notifications of the
  user and writes nothing else: \<open>read_at\<close> of every row is what it was (null on a row that
  was never read), and rows of other users and rows already read are unchanged.
  \<open>mark_notification_read\<close> on an unread notification of the user sets \<open>is_read\<close> and
  stamps \<open>read_at\<close> on that row, and leaves every other row unchanged.
\<close>

theorem mark_all_notifications_read_no_stamp:
  assumes "req_user req = Some u"
  shows "(\<exists>tbl'. mark_all_notifications_read req d =
                   (Redirect ''information:notification_list'' [],
                    [Success ''All notifications marked as read!''],
                    d\<lparr>notifications := tbl'\<rparr>)
            \<and> length tbl' = length (notifications d)
            \<and> (\<forall>i < length tbl'.
                  tbl' ! i =
                    (if recipient (notifications d ! i) = user_id u
                        \<and> \<not> notif_is_read (notifications d ! i)
                     then (notifications d ! i)\<lparr>notif_is_read := True\<rparr>
                     else notifications d ! i)
                  \<and> notif_read_at (tbl' ! i) = notif_read_at (notifications d ! i)))
         \<and> (\<forall>n. distinct (map notif_id (notifications d)) \<and> n \<in> set (notifications d)
                 \<and> notif_id n = nid \<and> recipient n = user_id u \<and> \<not> notif_is_read n \<longrightarrow>
               (\<exists>tbl'. snd (mark_notification_read req nid now d) = d\<lparr>notifications := tbl'\<rparr>
                  \<and> length tbl' = length (notifications d)
                  \<and> (\<forall>i < length tbl'.
                        tbl' ! i =
                          (if notif_id (notifications d ! i) = nid
                           then n\<lparr>notif_is_read := True, notif_read_at := Some now\<rparr>
                           else notifications d ! i))))"
proof (intro conjI allI impI)
  show "\<exists>tbl'. mark_all_notifications_read req d =
                   (Redirect ''information:notification_list'' [],
                    [Success ''All notifications marked as read!''],
                    d\<lparr>notifications := tbl'\<rparr>)
            \<and> length tbl' = length (notifications d)
            \<and> (\<forall>i < length tbl'.
                  tbl' ! i =
                    (if recipient (notifications d ! i) = user_id u
                        \<and> \<not> notif_is_read (notifications d ! i)
                     then (notifications d ! i)\<lparr>notif_is_read := True\<rparr>
                     else notifications d ! i)
                  \<and> notif_read_at (tbl' ! i) = notif_read_at (notifications d ! i))"
    using assms
    by (intro exI [where x = "map (\<lambda>n. if recipient n = user_id u \<and> \<not> notif_is_read n
                                       then n\<lparr>notif_is_read := True\<rparr> else n)
                                  (notifications d)"])
       (simp add: mark_all_notifications_read_def)
next
  fix n
  assume h: "distinct (map notif_id (notifications d)) \<and> n \<in> set (notifications d)
             \<and> notif_id n = nid \<and> recipient n = user_id u \<and> \<not> notif_is_read n"
  then have dist: "distinct (map notif_id (notifications d))"
    and mem: "n \<in> set (notifications d)" and rest: "notif_id n = nid"
      "recipient n = user_id u" "\<not> notif_is_read n"
    by simp_all
  let ?n' = "n\<lparr>notif_is_read := True, notif_read_at := Some now\<rparr>"
  let ?tbl' = "notif_save ?n' (notifications d)"
  have same: "notif_id ?n' = notif_id n" by simp
  have "snd (mark_notification_read req nid now d) = d\<lparr>notifications := ?tbl'\<rparr>"
    using assms dist mem rest by (rule mark_notification_read_unread)
  moreover have "length ?tbl' = length (notifications d)"
    using mem by (auto simp: notif_save_def)
  moreover have "\<forall>i < length ?tbl'. ?tbl' ! i =
      (if notif_id (notifications d ! i) = nid then ?n' else notifications d ! i)"
    using mem rest(1) by (auto simp: notif_save_def)
  ultimately show "\<exists>tbl'. snd (mark_notification_read req nid now d) = d\<lparr>notifications := tbl'\<rparr>
                  \<and> length tbl' = length (notifications d)
                  \<and> (\<forall>i < length tbl'.
                        tbl' ! i =
                          (if notif_id (notifications d ! i) = nid
                           then n\<lparr>notif_is_read := True, notif_read_at := Some now\<rparr>
                           else notifications d ! i))"
    by blast
qed

theorem mark_all_notifications_read_no_stamp_witness:
  "mark_all_notifications_read (get_request alice) school =
     (Redirect ''information:notification_list'' [],
      [Success ''All notifications marked as read!''],
      school\<lparr>notifications := [notif1\<lparr>notif_is_read := True\<rparr>, notif2]\<rparr>)
   \<and> notif_read_at (notif1\<lparr>notif_is_read := True\<rparr>) = None
   \<and> snd (mark_notification_read (get_request alice) 1 9 school) =
       school\<lparr>notifications :=
         [notif1\<lparr>notif_is_read := True, notif_read_at := Some 9\<rparr>, notif2]\<rparr>"
proof -
  let ?req = "get_request alice"
  have u: "req_user ?req = Some alice" by (simp add: get_request_def)
  have tbl: "notifications school = [notif1, notif2]" by (simp add: school_def)
  have f: "recipient notif1 = user_id alice" "\<not> notif_is_read notif1"
    "recipient notif2 \<noteq> user_id alice" "notif_id notif1 = 1" "notif_id notif2 \<noteq> 1"
    "notif_read_at notif1 = None"
    by (simp_all add: notif1_def notif2_def alice_def)
  have hyp: "distinct (map notif_id (notifications school)) \<and> notif1 \<in> set (notifications school)
             \<and> notif_id notif1 = 1 \<and> recipient notif1 = user_id alice \<and> \<not> notif_is_read notif1"
    using f by (simp add: tbl)
  note inst = mark_all_notifications_read_no_stamp [OF u, where d = school and nid = 1 and now = 9]
  from inst obtain tbl' where
    a: "mark_all_notifications_read ?req school =
          (Redirect ''information:notification_list'' [],
           [Success ''All notifications marked as read!''],
           school\<lparr>notifications := tbl'\<rparr>)"
    and la: "length tbl' = length (notifications school)"
    and na: "\<forall>i < length tbl'. tbl' ! i =
                (if recipient (notifications school ! i) = user_id alice
                    \<and> \<not> notif_is_read (notifications school ! i)
                 then (notifications school ! i)\<lparr>notif_is_read := True\<rparr>
                 else notifications school ! i)
              \<and> notif_read_at (tbl' ! i) = notif_read_at (notifications school ! i)"
    by blast
  have "tbl' ! 0 = notif1\<lparr>notif_is_read := True\<rparr>" "tbl' ! 1 = notif2"
    using na la f by (simp_all add: tbl)
  with la have ta: "tbl' = [notif1\<lparr>notif_is_read := True\<rparr>, notif2]"
    by (intro list_two) (simp_all add: tbl)
  from inst hyp obtain tbl'' where
    b: "snd (mark_notification_read ?req 1 9 school) = school\<lparr>notifications := tbl''\<rparr>"
    and lb: "length tbl'' = length (notifications school)"
    and nb: "\<forall>i < length tbl''. tbl'' ! i =
                (if notif_id (notifications school ! i) = 1
                 then notif1\<lparr>notif_is_read := True, notif_read_at := Some 9\<rparr>
                 else notifications school ! i)"
    by blast
  have "tbl'' ! 0 = notif1\<lparr>notif_is_read := True, notif_read_at := Some 9\<rparr>" "tbl'' ! 1 = notif2"
    using nb lb f by (simp_all add: tbl)
  with lb have tb: "tbl'' = [notif1\<lparr>notif_is_read := True, notif_read_at := Some 9\<rparr>, notif2]"
    by (intro list_two) (simp_all add: tbl)
  from a ta b tb f(6) show ?thesis by simp
qed

section \<open>Properties of the parent's views\<close>

lemma attendance_rate_expr_total:
  "attendance_rate_expr F p t =
     Inr (if t = 0 then PyInt 0 else PyFloat (fmul F (fdiv F (int p) (int t)) 100))"
  by (simp add: attendance_rate_expr_def py_truediv_def)

lemma py_round_rate:
  "py_round F (if t = 0 then PyInt 0 else PyFloat (fmul F (fdiv F (int p) (int t)) 100)) 1
     = rounded_rate F p t"
  by (simp add: py_round_def rounded_rate_def)

lemma child_detail_found:
  assumes "req_user req = Some u" and "is_parent u" and "parent_profile u = Some p"
    and "filter (\<lambda>c. child_id c = cid \<and> p \<in> parents c) (children d) = [c]"
  shows "child_detail F req cid today d =
           (Render ''users/child_detail.html''
              \<lparr>ctx_child = c,
               ctx_attendance =
                 take 30 (order_by_date_desc (filter (\<lambda>a. att_child a = child_id c) (attendances d))),
               ctx_attendance_summary =
                 \<lparr>total_days =
                    length (filter (\<lambda>a. att_child a = child_id c \<and> in_last_30_days today a)
                              (attendances d)),
                  present_days =
                    length (filter (\<lambda>a. status a = ''present'')
                              (filter (\<lambda>a. att_child a = child_id c \<and> in_last_30_days today a)
                                 (attendances d))),
                  absent_days =
                    length (filter (\<lambda>a. status a = ''absent'')
                              (filter (\<lambda>a. att_child a = child_id c \<and> in_last_30_days today a)
                                 (attendances d))),
                  late_days =
                    length (filter (\<lambda>a. status a = ''late'')
                              (filter (\<lambda>a. att_child a = child_id c \<and> in_last_30_days today a)
                                 (attendances d))),
                  attendance_rate =
                    rounded_rate F
                      (length (filter (\<lambda>a. status a = ''present'')
                                 (filter (\<lambda>a. att_child a = child_id c \<and> in_last_30_days today a)
                                    (attendances d))))
                      (length (filter (\<lambda>a. att_child a = child_id c \<and> in_last_30_days today a)
                                 (attendances d)))\<rparr>\<rparr>,
            [])"
  using assms
  by (simp add: child_detail_def objects_get_def Let_def attendance_rate_expr_total
      in_last_30_days_def py_round_rate del: filter_filter)

lemma child_detail_not_found:
  assumes "req_user req = Some u" and "is_parent u" and "parent_profile u = Some p"
    and "filter (\<lambda>c. child_id c = cid \<and> p \<in> parents c) (children d) = []"
  shows "child_detail F req cid today d =
           (Redirect ''users:parent_dashboard'' [],
            [Error ''Child not found or you do not have access.''])"
  using assms by (simp add: child_detail_def objects_get_def)

lemma guardian_filter:
  assumes "distinct (map child_id (children d))"
  shows "(\<exists>c \<in> set (children d). child_id c = cid \<and> p \<in> parents c
            \<and> filter (\<lambda>c. child_id c = cid \<and> p \<in> parents c) (children d) = [c])
         \<or> (\<not> (\<exists>c \<in> set (children d). child_id c = cid \<and> p \<in> parents c)
            \<and> filter (\<lambda>c. child_id c = cid \<and> p \<in> parents c) (children d) = [])"
proof (cases "\<exists>c \<in> set (children d). child_id c = cid \<and> p \<in> parents c")
  case True
  then obtain c where c: "c \<in> set (children d)" "child_id c = cid" "p \<in> parents c" by blast
  have "filter (\<lambda>x. child_id x = child_id c \<and> p \<in> parents x) (children d) = [c]"
    using assms c(1,3) by (rule filter_key_and_single)
  with c show ?thesis by auto
next
  case False
  then have "filter (\<lambda>c. child_id c = cid \<and> p \<in> parents c) (children d) = []"
    by (auto simp: filter_empty_conv)
  with False show ?thesis by simp
qed

text \<open>
  C4: for a parent, \<open>child_detail\<close> renders the child page exactly when a child of that id
  has the parent in its guardian set, and the page is then of that child. In every other
  case (another parent's child, or an id of no child) the outcome is the redirect to the
  dashboard with the flashed error \<open>Child not found or you do not have access.\<close>, which
  carries no context.
\<close>

theorem child_detail_guardian_only:
  assumes "req_user req = Some u" and "is_parent u" and "parent_profile u = Some p"
    and "distinct (map child_id (children d))"
  shows "((\<exists>ctx. fst (child_detail F req cid today d) = Render ''users/child_detail.html'' ctx)
            \<longleftrightarrow> (\<exists>c \<in> set (children d). child_id c = cid \<and> p \<in> parents c))
         \<and> (\<forall>c \<in> set (children d). child_id c = cid \<and> p \<in> parents c \<longrightarrow>
               (\<exists>ctx. child_detail F req cid today d = (Render ''users/child_detail.html'' ctx, [])
                      \<and> ctx_child ctx = c))
         \<and> (\<not> (\<exists>c \<in> set (children d). child_id c = cid \<and> p \<in> parents c) \<longrightarrow>
               child_detail F req cid today d =
                 (Redirect ''users:parent_dashboard'' [],
                  [Error ''Child not found or you do not have access.'']))"
proof -
  from guardian_filter [OF assms(4), of cid p]
  consider
      (found) c where "c \<in> set (children d)" "child_id c = cid" "p \<in> parents c"
        "filter (\<lambda>c. child_id c = cid \<and> p \<in> parents c) (children d) = [c]"
    | (none) "\<not> (\<exists>c \<in> set (children d). child_id c = cid \<and> p \<in> parents c)"
        "filter (\<lambda>c. child_id c = cid \<and> p \<in> parents c) (children d) = []"
    by blast
  then show ?thesis
  proof cases
    case found
    have only: "\<And>c'. c' \<in> set (children d) \<Longrightarrow> child_id c' = cid \<Longrightarrow> c' = c"
      using assms(4) found(1,2) by (metis distinct_key_eq)
    note r = child_detail_found [OF assms(1-3) found(4), of F today]
    have "\<exists>ctx. child_detail F req cid today d = (Render ''users/child_detail.html'' ctx, [])
            \<and> ctx_child ctx = c"
      by (subst r) simp
    moreover from this
    have "\<exists>ctx. fst (child_detail F req cid today d) = Render ''users/child_detail.html'' ctx"
      by auto
    ultimately show ?thesis using found(1-3) only by blast
  next
    case none
    note r = child_detail_not_found [OF assms(1-3) none(2), of F today]
    then have "\<not> (\<exists>ctx. fst (child_detail F req cid today d) = Render ''users/child_detail.html'' ctx)"
      by simp
    with r none(1) show ?thesis by blast
  qed
qed

theorem child_detail_guardian_only_witness:
  "(\<exists>ctx. child_detail sym_ops (get_request alice) 7 \<lparr>year = 2024, month = 3, day = 10\<rparr> school
            = (Render ''users/child_detail.html'' ctx, [])
          \<and> ctx_child ctx = dana)
   \<and> child_detail sym_ops (get_request alice) 8 \<lparr>year = 2024, month = 3, day = 10\<rparr> school
       = (Redirect ''users:parent_dashboard'' [],
          [Error ''Child not found or you do not have access.''])
   \<and> child_detail sym_ops (get_request alice) 99 \<lparr>year = 2024, month = 3, day = 10\<rparr> school
       = (Redirect ''users:parent_dashboard'' [],
          [Error ''Child not found or you do not have access.''])"
proof -
  let ?req = "get_request alice"
  let ?today = "\<lparr>year = 2024, month = 3, day = 10\<rparr>"
  have u: "req_user ?req = Some alice" "is_parent alice" "parent_profile alice = Some 1"
    by (simp_all add: get_request_def alice_def is_parent_def)
  have kids: "children school = [dana, eli]" by (simp add: school_def)
  have f: "child_id dana = 7" "child_id eli = 8" "1 \<in> parents dana" "1 \<notin> parents eli"
    by (simp_all add: dana_def eli_def)
  have dist: "distinct (map child_id (children school))"
    by (simp add: kids f)
  note inst = child_detail_guardian_only [OF u dist, where F = sym_ops and today = ?today]
  have "dana \<in> set (children school) \<and> child_id dana = 7 \<and> 1 \<in> parents dana"
    using f by (simp add: kids)
  with inst [of 7]
  have a: "\<exists>ctx. child_detail sym_ops ?req 7 ?today school = (Render ''users/child_detail.html'' ctx, [])
            \<and> ctx_child ctx = dana"
    by blast
  have "\<not> (\<exists>c \<in> set (children school). child_id c = 8 \<and> 1 \<in> parents c)"
    using f by (simp add: kids)
  with inst [of 8]
  have b: "child_detail sym_ops ?req 8 ?today school =
      (Redirect ''users:parent_dashboard'' [], [Error ''Child not found or you do not have access.''])"
    by blast
  have "\<not> (\<exists>c \<in> set (children school). child_id c = 99 \<and> 1 \<in> parents c)"
    using f by (simp add: kids)
  with inst [of 99]
  have c: "child_detail sym_ops ?req 99 ?today school =
      (Redirect ''users:parent_dashboard'' [], [Error ''Child not found or you do not have access.''])"
    by blast
  from a b c show ?thesis by blast
qed

lemma children_data_loop_ok:
  "\<exists>ds. children_data_loop F today d cs = Inr ds \<and> map cd_child ds = cs
     \<and> (\<forall>e \<in> set ds.
           stats_total_days (cd_attendance_stats e) =
             length (filter (\<lambda>a. att_child a = child_id (cd_child e) \<and> in_current_month today a)
                       (attendances d))
         \<and> stats_present_days (cd_attendance_stats e) =
             length (filter (\<lambda>a. status a = ''present'')
                       (filter (\<lambda>a. att_child a = child_id (cd_child e) \<and> in_current_month today a)
                          (attendances d)))
         \<and> stats_attendance_rate (cd_attendance_stats e) =
             rounded_rate F (stats_present_days (cd_attendance_stats e))
               (stats_total_days (cd_attendance_stats e)))"
proof (induction cs)
  case Nil
  show ?case by simp
next
  case (Cons c rest)
  then obtain ds where ds: "children_data_loop F today d rest = Inr ds" "map cd_child ds = rest"
    and props: "\<forall>e \<in> set ds.
           stats_total_days (cd_attendance_stats e) =
             length (filter (\<lambda>a. att_child a = child_id (cd_child e) \<and> in_current_month today a)
                       (attendances d))
         \<and> stats_present_days (cd_attendance_stats e) =
             length (filter (\<lambda>a. status a = ''present'')
                       (filter (\<lambda>a. att_child a = child_id (cd_child e) \<and> in_current_month today a)
                          (attendances d)))
         \<and> stats_attendance_rate (cd_attendance_stats e) =
             rounded_rate F (stats_present_days (cd_attendance_stats e))
               (stats_total_days (cd_attendance_stats e))"
    by blast
  show ?case
    using ds props
    by (simp add: Let_def attendance_rate_expr_total py_round_rate in_current_month_def
        del: filter_filter)
qed

text \<open>
  C7: on the parent dashboard, every child of the parent gets the number of its attendance
  rows dated in the current calendar month, the number of those with status \<open>present\<close>, and
  the rate \<open>round(present_days / total_days * 100, 1)\<close>, which is the int 0 when there is
  no row; on the child detail page the same holds over the rows dated in the last 30 days.
  Neither view ends in a \<open>ZeroDivisionError\<close>. The statement holds for every choice of the
  floating-point operations.
\<close>

theorem attendance_rate_no_division_by_zero:
  assumes "req_user req = Some u" and "is_parent u" and "parent_profile u = Some p"
  shows "(\<exists>ds. parent_dashboard F req today d =
                 Render ''users/parent_dashboard.html'' \<lparr>dash_parent = p, children_data = ds\<rparr>
            \<and> map cd_child ds = filter (\<lambda>c. p \<in> parents c) (children d)
            \<and> (\<forall>e \<in> set ds.
                  stats_total_days (cd_attendance_stats e) =
                    length (filter (\<lambda>a. att_child a = child_id (cd_child e)
                                          \<and> in_current_month today a) (attendances d))
                \<and> stats_present_days (cd_attendance_stats e) =
                    length (filter (\<lambda>a. status a = ''present'')
                              (filter (\<lambda>a. att_child a = child_id (cd_child e)
                                            \<and> in_current_month today a) (attendances d)))
                \<and> stats_attendance_rate (cd_attendance_stats e) =
                    rounded_rate F (stats_present_days (cd_attendance_stats e))
                      (stats_total_days (cd_attendance_stats e))))
         \<and> (\<forall>c. filter (\<lambda>c. child_id c = cid \<and> p \<in> parents c) (children d) = [c] \<longrightarrow>
               (\<exists>ctx. child_detail F req cid today d = (Render ''users/child_detail.html'' ctx, [])
                  \<and> ctx_child ctx = c
                  \<and> total_days (ctx_attendance_summary ctx) =
                      length (filter (\<lambda>a. att_child a = child_id c \<and> in_last_30_days today a)
                                (attendances d))
                  \<and> present_days (ctx_attendance_summary ctx) =
                      length (filter (\<lambda>a. status a = ''present'')
                                (filter (\<lambda>a. att_child a = child_id c \<and> in_last_30_days today a)
                                   (attendances d)))
                  \<and> attendance_rate (ctx_attendance_summary ctx) =
                      rounded_rate F (present_days (ctx_attendance_summary ctx))
                        (total_days (ctx_attendance_summary ctx))))
         \<and> rounded_rate F n 0 = PyInt 0
         \<and> fst (child_detail F req cid today d) \<noteq> ServerError ''ZeroDivisionError''"
proof (intro conjI allI impI)
  from children_data_loop_ok [of F today d "filter (\<lambda>c. p \<in> parents c) (children d)"]
  show "\<exists>ds. parent_dashboard F req today d =
                 Render ''users/parent_dashboard.html'' \<lparr>dash_parent = p, children_data = ds\<rparr>
            \<and> map cd_child ds = filter (\<lambda>c. p \<in> parents c) (children d)
            \<and> (\<forall>e \<in> set ds.
                  stats_total_days (cd_attendance_stats e) =
                    length (filter (\<lambda>a. att_child a = child_id (cd_child e)
                                          \<and> in_current_month today a) (attendances d))
                \<and> stats_present_days (cd_attendance_stats e) =
                    length (filter (\<lambda>a. status a = ''present'')
                              (filter (\<lambda>a. att_child a = child_id (cd_child e)
                                            \<and> in_current_month today a) (attendances d)))
                \<and> stats_attendance_rate (cd_attendance_stats e) =
                    rounded_rate F (stats_present_days (cd_attendance_stats e))
                      (stats_total_days (cd_attendance_stats e)))"
    using assms by (auto simp: parent_dashboard_def)
next
  fix c
  assume "filter (\<lambda>c. child_id c = cid \<and> p \<in> parents c) (children d) = [c]"
  note r = child_detail_found [OF assms this, of F today]
  show "\<exists>ctx. child_detail F req cid today d = (Render ''users/child_detail.html'' ctx, [])
                  \<and> ctx_child ctx = c
                  \<and> total_days (ctx_attendance_summary ctx) =
                      length (filter (\<lambda>a. att_child a = child_id c \<and> in_last_30_days today a)
                                (attendances d))
                  \<and> present_days (ctx_attendance_summary ctx) =
                      length (filter (\<lambda>a. status a = ''present'')
                                (filter (\<lambda>a. att_child a = child_id c \<and> in_last_30_days today a)
                                   (attendances d)))
                  \<and> attendance_rate (ctx_attendance_summary ctx) =
                      rounded_rate F (present_days (ctx_attendance_summary ctx))
                        (total_days (ctx_attendance_summary ctx))"
    by (subst r) (simp del: filter_filter)
next
  show "rounded_rate F n 0 = PyInt 0" by (simp add: rounded_rate_def)
next
  show "fst (child_detail F req cid today d) \<noteq> ServerError ''ZeroDivisionError''"
    by (simp add: child_detail_def Let_def attendance_rate_expr_total
        split: option.splits lookup.splits)
qed

lemma map_single: "map f xs = [y] \<Longrightarrow> \<exists>x. xs = [x] \<and> f x = y"
  by (cases xs) auto

theorem attendance_rate_no_division_by_zero_witness:
  "(\<exists>ds. parent_dashboard sym_ops (get_request alice) \<lparr>year = 2024, month = 3, day = 10\<rparr> school =
            Render ''users/parent_dashboard.html'' \<lparr>dash_parent = 1, children_data = ds\<rparr>
          \<and> map cd_child ds = [dana]
          \<and> map (\<lambda>e. stats_attendance_rate (cd_attendance_stats e)) ds =
              [PyFloat (FRound (FMul (FDiv 1 2) 100) 1)])
   \<and> (\<exists>ds. parent_dashboard sym_ops (get_request alice) \<lparr>year = 2024, month = 4, day = 10\<rparr> school =
            Render ''users/parent_dashboard.html'' \<lparr>dash_parent = 1, children_data = ds\<rparr>
          \<and> map cd_child ds = [dana]
          \<and> map (\<lambda>e. stats_attendance_rate (cd_attendance_stats e)) ds = [PyInt 0])
   \<and> (\<exists>ctx. child_detail sym_ops (get_request alice) 7 \<lparr>year = 2024, month = 3, day = 10\<rparr> school =
            (Render ''users/child_detail.html'' ctx, [])
          \<and> total_days (ctx_attendance_summary ctx) = 2
          \<and> attendance_rate (ctx_attendance_summary ctx) =
              PyFloat (FRound (FMul (FDiv 1 2) 100) 1))
   \<and> (\<exists>ctx. child_detail sym_ops (get_request alice) 7 \<lparr>year = 2025, month = 2, day = 2\<rparr> school =
            (Render ''users/child_detail.html'' ctx, [])
          \<and> total_days (ctx_attendance_summary ctx) = 0
          \<and> attendance_rate (ctx_attendance_summary ctx) = PyInt 0)"
proof -
  let ?req = "get_request alice"
  let ?march = "\<lparr>year = 2024, month = 3, day = 10\<rparr>"
  let ?april = "\<lparr>year = 2024, month = 4, day = 10\<rparr>"
  let ?later = "\<lparr>year = 2025, month = 2, day = 2\<rparr>"
  have u: "req_user ?req = Some alice" "is_parent alice" "parent_profile alice = Some 1"
    by (simp_all add: get_request_def alice_def is_parent_def)
  have kids: "filter (\<lambda>c. 1 \<in> parents c) (children school) = [dana]"
    by (simp add: school_def dana_def eli_def)
  have found: "filter (\<lambda>c. child_id c = 7 \<and> 1 \<in> parents c) (children school) = [dana]"
    by (simp add: school_def dana_def eli_def)
  have att: "attendances school = [att1, att2, att3]" by (simp add: school_def)
  have ord: "toordinal ?march = 738955" "toordinal ?later = 739284"
    "toordinal (att_date att2) = 738949" "toordinal (att_date att3) = 738950"
    by (simp_all add: toordinal_def days_before_year_def days_before_month_def
        days_in_months_def is_leap_def att2_def att3_def)
  have who: "att_child att1 \<noteq> child_id dana" "att_child att2 = child_id dana"
    "att_child att3 = child_id dana"
    by (simp_all add: att1_def att2_def att3_def dana_def)
  have st: "status att2 = ''present''" "status att3 \<noteq> ''present''"
    by (simp_all add: att2_def att3_def)
  have w_march: "filter (\<lambda>a. att_child a = child_id dana \<and> in_current_month ?march a)
                   (attendances school) = [att2, att3]"
    using who by (simp add: att in_current_month_def) (simp add: att2_def att3_def)
  have w_april: "filter (\<lambda>a. att_child a = child_id dana \<and> in_current_month ?april a)
                   (attendances school) = []"
    using who by (simp add: att in_current_month_def) (simp add: att2_def att3_def)
  have w_30: "filter (\<lambda>a. att_child a = child_id dana \<and> in_last_30_days ?march a)
                   (attendances school) = [att2, att3]"
    using who ord by (simp add: att in_last_30_days_def)
  have w_ny: "filter (\<lambda>a. att_child a = child_id dana \<and> in_last_30_days ?later a)
                   (attendances school) = []"
    using who ord by (simp add: att in_last_30_days_def)
  have half: "rounded_rate sym_ops (Suc 0) (Suc (Suc 0)) = PyFloat (FRound (FMul (FDiv 1 2) 100) 1)"
    by (simp add: rounded_rate_def sym_ops_def)
  have zero: "rounded_rate sym_ops 0 0 = PyInt 0"
    by (simp add: rounded_rate_def)
  note inst = attendance_rate_no_division_by_zero [OF u, where F = sym_ops and d = school and cid = 7]

  from inst [where today = ?march] obtain ds where
    d1: "parent_dashboard sym_ops ?req ?march school =
           Render ''users/parent_dashboard.html'' \<lparr>dash_parent = 1, children_data = ds\<rparr>"
    and d2: "map cd_child ds = filter (\<lambda>c. 1 \<in> parents c) (children school)"
    and d3: "\<forall>e \<in> set ds.
                  stats_total_days (cd_attendance_stats e) =
                    length (filter (\<lambda>a. att_child a = child_id (cd_child e)
                                          \<and> in_current_month ?march a) (attendances school))
                \<and> stats_present_days (cd_attendance_stats e) =
                    length (filter (\<lambda>a. status a = ''present'')
                              (filter (\<lambda>a. att_child a = child_id (cd_child e)
                                            \<and> in_current_month ?march a) (attendances school)))
                \<and> stats_attendance_rate (cd_attendance_stats e) =
                    rounded_rate sym_ops (stats_present_days (cd_attendance_stats e))
                      (stats_total_days (cd_attendance_stats e))"
    by blast
  from d2 kids obtain e where e: "ds = [e]" "cd_child e = dana"
    using map_single by metis
  from d3 e have "stats_attendance_rate (cd_attendance_stats e) = rounded_rate sym_ops (Suc 0) (Suc (Suc 0))"
    using st by (simp add: w_march del: filter_filter)
  with d1 d2 e kids half have A:
    "\<exists>ds. parent_dashboard sym_ops ?req ?march school =
            Render ''users/parent_dashboard.html'' \<lparr>dash_parent = 1, children_data = ds\<rparr>
          \<and> map cd_child ds = [dana]
          \<and> map (\<lambda>e. stats_attendance_rate (cd_attendance_stats e)) ds =
              [PyFloat (FRound (FMul (FDiv 1 2) 100) 1)]"
    by simp

  from inst [where today = ?april] obtain ds' where
    d1': "parent_dashboard sym_ops ?req ?april school =
           Render ''users/parent_dashboard.html'' \<lparr>dash_parent = 1, children_data = ds'\<rparr>"
    and d2': "map cd_child ds' = filter (\<lambda>c. 1 \<in> parents c) (children school)"
    and d3': "\<forall>e \<in> set ds'.
                  stats_total_days (cd_attendance_stats e) =
                    length (filter (\<lambda>a. att_child a = child_id (cd_child e)
                                          \<and> in_current_month ?april a) (attendances school))
                \<and> stats_present_days (cd_attendance_stats e) =
                    length (filter (\<lambda>a. status a = ''present'')
                              (filter (\<lambda>a. att_child a = child_id (cd_child e)
                                            \<and> in_current_month ?april a) (attendances school)))
                \<and> stats_attendance_rate (cd_attendance_stats e) =
                    rounded_rate sym_ops (stats_present_days (cd_attendance_stats e))
                      (stats_total_days (cd_attendance_stats e))"
    by blast
  from d2' kids obtain e' where e': "ds' = [e']" "cd_child e' = dana"
    using map_single by metis
  from d3' e' have "stats_attendance_rate (cd_attendance_stats e') = rounded_rate sym_ops 0 0"
    by (simp add: w_april del: filter_filter)
  with d1' d2' e' kids zero have B:
    "\<exists>ds. parent_dashboard sym_ops ?req ?april school =
            Render ''users/parent_dashboard.html'' \<lparr>dash_parent = 1, children_data = ds\<rparr>
          \<and> map cd_child ds = [dana]
          \<and> map (\<lambda>e. stats_attendance_rate (cd_attendance_stats e)) ds = [PyInt 0]"
    by simp

  from inst [where today = ?march] found obtain ctx where
    c1: "child_detail sym_ops ?req 7 ?march school = (Render ''users/child_detail.html'' ctx, [])"
    and c2: "total_days (ctx_attendance_summary ctx) =
               length (filter (\<lambda>a. att_child a = child_id dana \<and> in_last_30_days ?march a)
                         (attendances school))"
    and c3: "present_days (ctx_attendance_summary ctx) =
               length (filter (\<lambda>a. status a = ''present'')
                         (filter (\<lambda>a. att_child a = child_id dana \<and> in_last_30_days ?march a)
                            (attendances school)))"
    and c4: "attendance_rate (ctx_attendance_summary ctx) =
               rounded_rate sym_ops (present_days (ctx_attendance_summary ctx))
                 (total_days (ctx_attendance_summary ctx))"
    by blast
  from c2 c3 c4 st have "total_days (ctx_attendance_summary ctx) = 2"
    and "attendance_rate (ctx_attendance_summary ctx) = rounded_rate sym_ops (Suc 0) (Suc (Suc 0))"
    by (simp_all add: w_30 del: filter_filter)
  with c1 half have C:
    "\<exists>ctx. child_detail sym_ops ?req 7 ?march school = (Render ''users/child_detail.html'' ctx, [])
          \<and> total_days (ctx_attendance_summary ctx) = 2
          \<and> attendance_rate (ctx_attendance_summary ctx) =
              PyFloat (FRound (FMul (FDiv 1 2) 100) 1)"
    by auto

  from inst [where today = ?later] found obtain ctx' where
    c1': "child_detail sym_ops ?req 7 ?later school = (Render ''users/child_detail.html'' ctx', [])"
    and c2': "total_days (ctx_attendance_summary ctx') =
               length (filter (\<lambda>a. att_child a = child_id dana \<and> in_last_30_days ?later a)
                         (attendances school))"
    and c3': "present_days (ctx_attendance_summary ctx') =
               length (filter (\<lambda>a. status a = ''present'')
                         (filter (\<lambda>a. att_child a = child_id dana \<and> in_last_30_days ?later a)
                            (attendances school)))"
    and c4': "attendance_rate (ctx_attendance_summary ctx') =
               rounded_rate sym_ops (present_days (ctx_attendance_summary ctx'))
                 (total_days (ctx_attendance_summary ctx'))"
    by blast
  from c2' c3' c4' have "total_days (ctx_attendance_summary ctx') = 0"
    and "attendance_rate (ctx_attendance_summary ctx') = rounded_rate sym_ops 0 0"
    by (simp_all add: w_ny del: filter_filter)
  with c1' zero have D:
    "\<exists>ctx. child_detail sym_ops ?req 7 ?later school = (Render ''users/child_detail.html'' ctx, [])
          \<and> total_days (ctx_attendance_summary ctx) = 0
          \<and> attendance_rate (ctx_attendance_summary ctx) = PyInt 0"
    by auto
  from A B C D show ?thesis by blast
qed

section \<open>Properties of the teacher's views\<close>

lemma student_attendance_any_student:
  assumes "req_user req = Some u" and "is_teacher u" and "teacher_profile u = Some t"
    and "distinct (map child_id (children d))" and "c \<in> set (children d)"
  shows "student_attendance req (child_id c) d =
           Render ''monitoring/student_attendance.html''
             \<lparr>sa_student = c,
              sa_attendance =
                take 30 (order_by_date_desc (filter (\<lambda>a. att_child a = child_id c) (attendances d))),
              sa_teacher = t\<rparr>"
proof -
  have "filter (\<lambda>x. child_id x = child_id c) (children d) = [c]"
    using assms(4,5) by (rule filter_key_single)
  then have "get_object_or_404 (\<lambda>x. child_id x = child_id c) (children d)
               = (Inr c :: student_attendance_context response + child)"
    by (rule get_object_or_404_single)
  with assms(1-3) show ?thesis
    by (simp add: student_attendance_def)
qed

text \<open>
  C2: the code at the failing input. Teacher 1 owns no class in which child 8 is enrolled,
  yet \<open>student_attendance\<close> renders that child's attendance history for the teacher, and
  \<open>student_grades\<close> renders the child's grade page (with no grade of another teacher's
  class on it).
\<close>

theorem student_attendance_other_teacher:
  "\<not> teacher_owns_class_of 1 8 school
   \<and> student_attendance (get_request bob) 8 school =
       Render ''monitoring/student_attendance.html''
         \<lparr>sa_student = eli, sa_attendance = [att1], sa_teacher = 1\<rparr>
   \<and> student_grades (get_request bob) 8 school =
       Render ''monitoring/student_grades.html''
         \<lparr>sg_student = eli, sg_grades = [], sg_teacher = 1\<rparr>"
proof -
  have a: "\<not> teacher_owns_class_of 1 8 school"
    by (simp add: teacher_owns_class_of_def school_def)
  have u: "req_user (get_request bob) = Some bob" "is_teacher bob" "teacher_profile bob = Some 1"
    by (simp_all add: get_request_def bob_def is_teacher_def)
  have kids: "children school = [dana, eli]" and att: "attendances school = [att1, att2, att3]"
    by (simp_all add: school_def)
  have ids: "child_id dana = 7" "child_id eli = 8"
    "att_child att1 = 8" "att_child att2 = 7" "att_child att3 = 7"
    by (simp_all add: dana_def eli_def att1_def att2_def att3_def)
  have b: "student_attendance (get_request bob) 8 school =
       Render ''monitoring/student_attendance.html''
         \<lparr>sa_student = eli, sa_attendance = [att1], sa_teacher = 1\<rparr>"
    using u
    by (simp add: student_attendance_def kids att ids get_object_or_404_def objects_get_def
        order_by_date_desc_def)
  have c: "student_grades (get_request bob) 8 school =
       Render ''monitoring/student_grades.html''
         \<lparr>sg_student = eli, sg_grades = [], sg_teacher = 1\<rparr>"
    using u
    by (simp add: student_grades_def kids ids get_object_or_404_def objects_get_def
        order_by_class_quarter_def)
       (simp add: school_def)
  from a b c show ?thesis by simp
qed

end
